theory Spec2Isabelle
  imports Main "HOL-Library.AList"
begin

section \<open>Python values, dictionaries and strings\<close>

text \<open>
  The values that travel through \<^verbatim>\<open>multiMCP.py\<close>: tool arguments, marshaled payloads and
  parsed JSON. A Python \<^verbatim>\<open>dict\<close> keeps its keys in insertion order and lists each key once;
  it is an association list here, updated with \<open>AList.update\<close> (an existing key keeps its
  place and takes the new value, a new key goes to the end), exactly as
  \<^verbatim>\<open>d[k] = v\<close> does. \<open>POther\<close> stands for any other object (a float, bytes, a set),
  held by its \<^verbatim>\<open>repr\<close>: the code never looks inside one.
\<close>

datatype pyval =
    PNone
  | PBool bool
  | PInt int
  | PStr string
  | PList "pyval list"
  | PDict "(string \<times> pyval) list"
  | POther string

definition dict_of :: "('k \<times> 'v) list \<Rightarrow> ('k \<times> 'v) list" where
  \<comment> \<open>\<^verbatim>\<open>dict(pairs)\<close>: the pairs are stored one after the other.\<close>
  "dict_of kvs = foldl (\<lambda>d (k, v). AList.update k v d) [] kvs"

definition keys :: "('k \<times> 'v) list \<Rightarrow> 'k list" where
  \<comment> \<open>\<^verbatim>\<open>list(d.keys())\<close>\<close>
  "keys d = map fst d"

definition py_isspace :: "char \<Rightarrow> bool" where
  \<comment> \<open>\<^verbatim>\<open>str.isspace\<close> on one character. A \<open>char\<close> is a code point below 256, and
      these twelve are all the code points below 256 that Python counts as whitespace:
      tab to carriage return, the four separators 28 to 31, the space, the next-line
      control U+0085 and the no-break space U+00A0.\<close>
  "py_isspace c =
     (c \<in> set [CHR 0x09, CHR 0x0A, CHR 0x0B, CHR 0x0C, CHR 0x0D,
                CHR 0x1C, CHR 0x1D, CHR 0x1E, CHR 0x1F, CHR 0x20, CHR 0x85, CHR 0xA0])"

definition strip :: "string \<Rightarrow> string" where
  \<comment> \<open>\<^verbatim>\<open>s.strip()\<close>\<close>
  "strip s = rev (dropWhile py_isspace (rev (dropWhile py_isspace s)))"

definition endswith :: "string \<Rightarrow> char \<Rightarrow> bool" where
  \<comment> \<open>\<^verbatim>\<open>s.endswith(c)\<close> for a one-character suffix\<close>
  "endswith s c = (case rev s of [] \<Rightarrow> False | x # _ \<Rightarrow> x = c)"

section \<open>Provider descriptors, tools and schemas\<close>

text \<open>
  One entry of \<^verbatim>\<open>server_configs\<close>: the code reads \<^verbatim>\<open>config["script"]\<close>,
  \<^verbatim>\<open>config.get("cwd", os.getcwd())\<close> and \<^verbatim>\<open>config["id"]\<close>. The field for
  \<^verbatim>\<open>"id"\<close> is \<open>id_key\<close>, since \<open>id\<close> is HOL's identity function. The keys
  \<^verbatim>\<open>"script"\<close> and \<^verbatim>\<open>"id"\<close> are present in every descriptor, \<^verbatim>\<open>"cwd"\<close> may be
  absent.
\<close>

record config =
  script :: string
  cwd :: "string option"
  id_key :: string

text \<open>
  A tool's \<^verbatim>\<open>inputSchema\<close> is a JSON Schema object. The code reads two of its keys,
  \<^verbatim>\<open>"properties"\<close> and \<^verbatim>\<open>"$defs"\<close>, either of which may be absent, and inside a
  definition of \<^verbatim>\<open>"$defs"\<close> the key \<^verbatim>\<open>"properties"\<close>, which may be absent too (the
  definition of an enumeration has none). Each property maps to its own schema, a JSON
  value.
\<close>

record schema_def =
  def_properties :: "(string \<times> pyval) list option"

record schema =
  properties :: "(string \<times> pyval) list option"
  defs :: "(string \<times> schema_def) list option"

record tool =
  name :: string
  description :: string
  inputSchema :: schema

text \<open>The value stored in \<^verbatim>\<open>tool_map\<close>: \<^verbatim>\<open>{"config": config, "tool": tool}\<close>.\<close>

record tool_entry =
  entry_config :: config
  entry_tool :: tool

record MultiMCP =
  server_configs :: "config list"
  tool_map :: "(string \<times> tool_entry) list"
  server_tools :: "(string \<times> tool list) list"

definition MultiMCP_init :: "config list \<Rightarrow> MultiMCP" where
  \<comment> \<open>\<^verbatim>\<open>MultiMCP.__init__\<close>\<close>
  "MultiMCP_init server_configs' =
     \<lparr>server_configs = server_configs', tool_map = [], server_tools = []\<rparr>"

section \<open>The provider processes\<close>

text \<open>
  What one scan of a provider can do, seen from \<^verbatim>\<open>initialize\<close>: the transport
  \<^verbatim>\<open>stdio_client\<close> fails to open, \<^verbatim>\<open>ClientSession\<close> fails to open, the handshake
  \<^verbatim>\<open>session.initialize()\<close> fails, \<^verbatim>\<open>session.list_tools()\<close> fails, or the tools
  arrive. Each failure carries the text of its exception. Leaving the two
  \<^verbatim>\<open>async with\<close> blocks is taken to succeed.
\<close>

datatype discovery =
    ConnectFailed string
  | SessionFailed string
  | HandshakeFailed string
  | ListToolsFailed string
  | ToolsListed "tool list"

text \<open>
  The reply of a provider to \<^verbatim>\<open>call_tool\<close>: \<^verbatim>\<open>result.content\<close> is a list of content
  parts; a text part has a \<^verbatim>\<open>text\<close>, an image part has none.
\<close>

record content_part =
  kind :: string
  text_of :: "string option"

record envelope =
  content :: "content_part list"

section \<open>The library functions the code calls\<close>

text \<open>
  The syntax tree \<^verbatim>\<open>ast.parse(s, mode='eval').body\<close> returns, as far as the code looks
  into it: a \<^verbatim>\<open>Call\<close> has \<^verbatim>\<open>func\<close>, \<^verbatim>\<open>args\<close> and \<^verbatim>\<open>keywords\<close> (each keyword a
  name, absent for \<^verbatim>\<open>**kw\<close>, and a value), a \<^verbatim>\<open>Name\<close> has \<^verbatim>\<open>id\<close>. \<open>Node\<close> is any
  other kind of node, with its class name and its children.
\<close>

datatype expr =
    Name string
  | Constant pyval
  | Attribute expr string
  | Call expr "expr list" "(string option \<times> expr) list"
  | Node string "expr list"

text \<open>
  Everything outside the file that its functions depend on: the working directory, the
  provider processes, and the three library functions \<^verbatim>\<open>ast.parse\<close>,
  \<^verbatim>\<open>ast.literal_eval\<close> and \<^verbatim>\<open>json.loads\<close>, each \<open>None\<close> where the library raises.
  A call of a provider's tool returns its envelope, or the text of the exception the
  session raised.
\<close>

record world =
  os_getcwd :: string
  list_tools :: "config \<Rightarrow> discovery"
  session_call_tool :: "config \<Rightarrow> string \<Rightarrow> pyval \<Rightarrow> string + envelope"
  ast_parse :: "string \<Rightarrow> expr option"
  literal_eval :: "expr \<Rightarrow> pyval option"
  json_loads :: "string \<Rightarrow> pyval option"

text \<open>What \<^verbatim>\<open>initialize\<close> prints, one constructor for each \<^verbatim>\<open>print\<close> of the source.\<close>

datatype message =
    InMultiMCPInitialize
  | ScanningToolsFrom string string
  | ConnectionEstablished
  | SessionCreated
  | SessionInitialized
  | ToolsReceived "string list"
  | SessionError string
  | ErrorInitializing string string

section \<open>Building the catalog: initialize\<close>

definition add_server_tool :: "string \<Rightarrow> tool \<Rightarrow> (string \<times> tool list) list \<Rightarrow> (string \<times> tool list) list" where
  \<comment> \<open>\<^verbatim>\<open>if server_key not in self.server_tools: self.server_tools[server_key] = []\<close>,
      then \<^verbatim>\<open>self.server_tools[server_key].append(tool)\<close>\<close>
  "add_server_tool server_key t st =
     (let st' = (if map_of st server_key = None then AList.update server_key [] st else st)
      in AList.map_entry server_key (\<lambda>ts. ts @ [t]) st')"

definition register_tool :: "config \<Rightarrow> MultiMCP \<Rightarrow> tool \<Rightarrow> MultiMCP" where
  \<comment> \<open>the body of \<^verbatim>\<open>for tool in tools.tools\<close>\<close>
  "register_tool c m t =
     m\<lparr>tool_map := AList.update (name t) \<lparr>entry_config = c, entry_tool = t\<rparr> (tool_map m),
       server_tools := add_server_tool (id_key c) t (server_tools m)\<rparr>"

definition scan_server :: "world \<Rightarrow> MultiMCP \<times> message list \<Rightarrow> config \<Rightarrow> MultiMCP \<times> message list" where
  \<comment> \<open>the body of \<^verbatim>\<open>for config in self.server_configs\<close>: the two nested
      \<^verbatim>\<open>try\<close> blocks. The inner handler prints \<open>SessionError\<close>, the outer one
      \<open>ErrorInitializing\<close>.\<close>
  "scan_server w acc c =
     (let m = fst acc;
          out = snd acc @
            [ScanningToolsFrom (script c) (case cwd c of Some d \<Rightarrow> d | None \<Rightarrow> os_getcwd w)]
      in case list_tools w c of
           ConnectFailed e \<Rightarrow> (m, out @ [ErrorInitializing (script c) e])
         | SessionFailed se \<Rightarrow> (m, out @ [ConnectionEstablished, SessionError se])
         | HandshakeFailed se \<Rightarrow>
             (m, out @ [ConnectionEstablished, SessionCreated, SessionError se])
         | ListToolsFailed se \<Rightarrow>
             (m, out @ [ConnectionEstablished, SessionCreated, SessionInitialized, SessionError se])
         | ToolsListed ts \<Rightarrow>
             (foldl (register_tool c) m ts,
              out @ [ConnectionEstablished, SessionCreated, SessionInitialized,
                     ToolsReceived (map name ts)]))"

definition initialize :: "world \<Rightarrow> MultiMCP \<Rightarrow> MultiMCP \<times> message list" where
  \<comment> \<open>returns the object after the loop and what was printed\<close>
  "initialize w m = foldl (scan_server w) (m, [InMultiMCPInitialize]) (server_configs m)"

definition list_all_tools :: "MultiMCP \<Rightarrow> string list" where
  "list_all_tools m = keys (tool_map m)"

definition get_all_tools :: "MultiMCP \<Rightarrow> tool list" where
  "get_all_tools m = map (\<lambda>(k, entry). entry_tool entry) (tool_map m)"

definition get_tools_from_servers :: "MultiMCP \<Rightarrow> string list \<Rightarrow> tool list" where
  "get_tools_from_servers m selected_servers =
     concat (map (\<lambda>server. case map_of (server_tools m) server of None \<Rightarrow> [] | Some ts \<Rightarrow> ts)
                 selected_servers)"

text \<open>
  The registrations of a run of \<^verbatim>\<open>initialize\<close> in the order the loops make them: every
  tool of every provider whose tools arrived, with the descriptor of that provider.
\<close>

definition listed :: "discovery \<Rightarrow> tool list" where
  "listed d = (case d of ToolsListed ts \<Rightarrow> ts | _ \<Rightarrow> [])"

definition registrations :: "world \<Rightarrow> config list \<Rightarrow> (config \<times> tool) list" where
  "registrations w cs = concat (map (\<lambda>c. map (Pair c) (listed (list_tools w c))) cs)"

definition entry_of :: "config \<times> tool \<Rightarrow> string \<times> tool_entry" where
  "entry_of r = (name (snd r), \<lparr>entry_config = fst r, entry_tool = snd r\<rparr>)"

text \<open>
  The registration that a name refers to once a list of registrations has been made in
  order: the last one under that name.
\<close>

fun last_registration :: "string \<Rightarrow> (config \<times> tool) list \<Rightarrow> (config \<times> tool) option" where
  "last_registration n [] = None"
| "last_registration n (r # rs) =
     (case last_registration n rs of
        Some r' \<Rightarrow> Some r'
      | None \<Rightarrow> if name (snd r) = n then Some r else None)"

section \<open>Calling a tool: function_wrapper\<close>

text \<open>
  Every \<^verbatim>\<open>raise\<close> of \<^verbatim>\<open>function_wrapper\<close> and \<^verbatim>\<open>call_tool\<close>, and the exceptions that
  pass through them. The first four are all \<^verbatim>\<open>ValueError\<close> in the source and differ by
  their message:
  \<^item> \<open>ParseError n c\<close> is \<^verbatim>\<open>"Failed to parse function string 'n': c"\<close>, with \<open>n\<close> the
    value of \<^verbatim>\<open>tool_name\<close> when the handler runs;
  \<^item> \<open>ToolNotFound n\<close> is \<^verbatim>\<open>"Tool 'n' not found."\<close>;
  \<^item> \<open>ToolNotFoundOnAnyServer n\<close> is \<^verbatim>\<open>"Tool 'n' not found on any server."\<close>;
  \<^item> \<open>ArgumentCountError n e a\<close> is \<^verbatim>\<open>"n expects e args, got a"\<close>;
  \<^item> \<open>KeyError k\<close> is the \<^verbatim>\<open>KeyError\<close> of a subscript on the schema (\<open>None\<close> for the key
    \<^verbatim>\<open>None\<close>);
  \<^item> \<open>ProviderError e\<close> is whatever the session to the provider raised.
\<close>

datatype parse_failure =
    SyntaxErrorRaised
  | InvalidFunctionCallFormat
  | LiteralEvalRaised

datatype error =
    ParseError string parse_failure
  | ToolNotFound string
  | ToolNotFoundOnAnyServer string
  | ArgumentCountError string nat nat
  | KeyError "string option"
  | ProviderError string

text \<open>
  A session that \<^verbatim>\<open>call_tool\<close> opens to a provider: the descriptor launched, the tool
  name and the arguments sent. The functions below return, beside their result, the
  sessions they opened, in order.
\<close>

type_synonym dispatch = "config \<times> string \<times> pyval"

text \<open>What \<^verbatim>\<open>function_wrapper\<close> returns: the parsed value, or the envelope itself.\<close>

datatype normalized =
    Parsed pyval
  | RawEnvelope envelope

definition parse_call :: "world \<Rightarrow> string \<Rightarrow> string \<Rightarrow> error + string \<times> pyval list" where
  \<comment> \<open>the \<^verbatim>\<open>try\<close> block of lines 178 to 185 and its handler; \<^verbatim>\<open>expr.keywords\<close> is not
      read\<close>
  "parse_call w tool_name stripped =
     (case ast_parse w stripped of
        None \<Rightarrow> Inl (ParseError tool_name SyntaxErrorRaised)
      | Some (Call (Name ident) call_args call_keywords) \<Rightarrow>
          (case those (map (literal_eval w) call_args) of
             None \<Rightarrow> Inl (ParseError ident LiteralEvalRaised)
           | Some args \<Rightarrow> Inr (ident, args))
      | Some _ \<Rightarrow> Inl (ParseError tool_name InvalidFunctionCallFormat))"

definition handle_function_string :: "world \<Rightarrow> string \<Rightarrow> pyval list \<Rightarrow> error + string \<times> pyval list" where
  \<comment> \<open>lines 175 to 185: the tool name and the arguments the rest of the function uses\<close>
  "handle_function_string w tool_name args =
     (if length args = 0 then
        (let stripped = strip tool_name
         in if endswith stripped CHR '')'' \<and> CHR ''('' \<in> set stripped
            then parse_call w tool_name stripped
            else Inr (tool_name, args))
      else Inr (tool_name, args))"

definition build_input_payload :: "string \<Rightarrow> schema \<Rightarrow> pyval list \<Rightarrow> error + pyval" where
  \<comment> \<open>lines 194 to 209\<close>
  "build_input_payload tool_name sch args =
     (if ''input'' \<in> set (keys (case properties sch of None \<Rightarrow> [] | Some ps \<Rightarrow> ps)) then
        (case defs sch of
           None \<Rightarrow> Inl (KeyError (Some ''$defs''))
         | Some [] \<Rightarrow> Inl (KeyError None)
         | Some ((inner_key, inner_def) # _) \<Rightarrow>
             (case def_properties inner_def of
                None \<Rightarrow> Inl (KeyError (Some ''properties''))
              | Some inner_props \<Rightarrow>
                  (let param_names = keys inner_props
                   in if length param_names \<noteq> length args
                      then Inl (ArgumentCountError tool_name (length param_names) (length args))
                      else Inr (PDict [(''input'', PDict (dict_of (zip param_names args)))]))))
      else
        (case properties sch of
           None \<Rightarrow> Inl (KeyError (Some ''properties''))
         | Some ps \<Rightarrow>
             (let param_names = keys ps
              in if length param_names \<noteq> length args
                 then Inl (ArgumentCountError tool_name (length param_names) (length args))
                 else Inr (PDict (dict_of (zip param_names args))))))"

definition call_tool :: "world \<Rightarrow> MultiMCP \<Rightarrow> string \<Rightarrow> pyval \<Rightarrow> (error + envelope) \<times> dispatch list" where
  "call_tool w m tool_name arguments =
     (case map_of (tool_map m) tool_name of
        None \<Rightarrow> (Inl (ToolNotFoundOnAnyServer tool_name), [])
      | Some entry \<Rightarrow>
          (case session_call_tool w (entry_config entry) tool_name arguments of
             Inl e \<Rightarrow> (Inl (ProviderError e), [(entry_config entry, tool_name, arguments)])
           | Inr result \<Rightarrow> (Inr result, [(entry_config entry, tool_name, arguments)])))"

text \<open>
  The \<^verbatim>\<open>try\<close> block of lines 214 to 227. Its first two lines can raise:
  \<^verbatim>\<open>[0]\<close> on an empty list, \<^verbatim>\<open>.text\<close> on a part that is not text, and
  \<^verbatim>\<open>json.loads\<close>. The handler \<^verbatim>\<open>except Exception: return result\<close> catches all three.
\<close>

datatype exception = IndexError | AttributeError | JSONDecodeError

definition parse_content :: "world \<Rightarrow> envelope \<Rightarrow> exception + pyval" where
  \<comment> \<open>\<^verbatim>\<open>content_text = getattr(result, "content", [])[0].text.strip()\<close> and
      \<^verbatim>\<open>parsed = json.loads(content_text)\<close>\<close>
  "parse_content w result =
     (case content result of
        [] \<Rightarrow> Inl IndexError
      | part # _ \<Rightarrow>
          (case text_of part of
             None \<Rightarrow> Inl AttributeError
           | Some t \<Rightarrow>
               (case json_loads w (strip t) of
                  None \<Rightarrow> Inl JSONDecodeError
                | Some parsed \<Rightarrow> Inr parsed)))"

definition normalize_output :: "world \<Rightarrow> envelope \<Rightarrow> normalized" where
  "normalize_output w result =
     (case parse_content w result of
        Inl _ \<Rightarrow> RawEnvelope result
      | Inr parsed \<Rightarrow>
          (case parsed of
             PDict d \<Rightarrow>
               (case map_of d ''result'' of
                  Some v \<Rightarrow> Parsed v
                | None \<Rightarrow> (case d of [(k, v)] \<Rightarrow> Parsed v | _ \<Rightarrow> Parsed parsed))
           | _ \<Rightarrow> Parsed parsed))"

definition invoke :: "world \<Rightarrow> MultiMCP \<Rightarrow> string \<Rightarrow> pyval list \<Rightarrow> (error + normalized) \<times> dispatch list" where
  \<comment> \<open>lines 188 to 227 of \<^verbatim>\<open>function_wrapper\<close>: look up the tool, build the payload,
      call, normalize\<close>
  "invoke w m tool_name args =
     (case map_of (tool_map m) tool_name of
        None \<Rightarrow> (Inl (ToolNotFound tool_name), [])
      | Some tool_entry \<Rightarrow>
          (case build_input_payload tool_name (inputSchema (entry_tool tool_entry)) args of
             Inl e \<Rightarrow> (Inl e, [])
           | Inr params \<Rightarrow>
               (case call_tool w m tool_name params of
                  (Inl e, ds) \<Rightarrow> (Inl e, ds)
                | (Inr result, ds) \<Rightarrow> (Inr (normalize_output w result), ds))))"

definition function_wrapper :: "world \<Rightarrow> MultiMCP \<Rightarrow> string \<Rightarrow> pyval list \<Rightarrow> (error + normalized) \<times> dispatch list" where
  "function_wrapper w m tool_name args =
     (case handle_function_string w tool_name args of
        Inl e \<Rightarrow> (Inl e, [])
      | Inr (tool_name', args') \<Rightarrow> invoke w m tool_name' args')"

section \<open>Warnings and reachable providers\<close>



definition reachable :: "world \<Rightarrow> config \<Rightarrow> bool" where
  "reachable w c = (case list_tools w c of ToolsListed _ \<Rightarrow> True | _ \<Rightarrow> False)"


definition tools_of :: "string \<Rightarrow> (config \<times> tool) list \<Rightarrow> tool list" where
  \<comment> \<open>the tools registered under a provider id, in order\<close>
  "tools_of pid rs = map snd (filter (\<lambda>r. id_key (fst r) = pid) rs)"

section \<open>The Wrapped shape as the specification words it\<close>

text \<open>
  The specification describes the Wrapped shape as a schema with exactly one top-level
  property that itself references another definition, and its inner properties as those
  of the definition referenced. The two definitions below follow these words, not the
  code, to compare them with what \<open>build_input_payload\<close> tests. A reference is
  the JSON Schema member \<^verbatim>\<open>"$ref": "#/$defs/<name>"\<close>.
\<close>

definition ref_of :: "pyval \<Rightarrow> string option" where
  "ref_of p =
     (case p of
        PDict kvs \<Rightarrow>
          (case map_of kvs ''$ref'' of
             Some (PStr r) \<Rightarrow> if take 8 r = ''#/$defs/'' then Some (drop 8 r) else None
           | _ \<Rightarrow> None)
      | _ \<Rightarrow> None)"

definition spec_wrapped_inner_properties :: "schema \<Rightarrow> (string \<times> pyval) list option" where
  "spec_wrapped_inner_properties sch =
     (case properties sch of
        Some [(p, p_schema)] \<Rightarrow>
          (case ref_of p_schema of
             Some d \<Rightarrow>
               (case defs sch of
                  Some ds \<Rightarrow> (case map_of ds d of Some df \<Rightarrow> def_properties df | None \<Rightarrow> None)
                | None \<Rightarrow> None)
           | None \<Rightarrow> None)
      | _ \<Rightarrow> None)"

section \<open>Worked instances\<close>

text \<open>
  Data for the instances worked below. The repository's \<^verbatim>\<open>mcp_server_1.py\<close> and
  \<^verbatim>\<open>mcp_server_4.py\<close> both declare a tool \<^verbatim>\<open>add(input: AddInput)\<close>, with different
  descriptions; \<^verbatim>\<open>mcp_server_4.py\<close> also declares \<^verbatim>\<open>multiply(a, b)\<close>. The schemas are
  the ones such declarations produce: a single property \<^verbatim>\<open>input\<close> that refers to the
  definition \<^verbatim>\<open>AddInput\<close>, and two plain properties.
\<close>

definition add_schema :: schema where
  "add_schema =
     \<lparr>properties = Some [(''input'', PDict [(''$ref'', PStr ''#/$defs/AddInput'')])],
      defs = Some [(''AddInput'',
                \<lparr>def_properties = Some [(''a'', PDict [(''type'', PStr ''integer'')]),
                                        (''b'', PDict [(''type'', PStr ''integer'')])]\<rparr>)]\<rparr>"

definition multiply_schema :: schema where
  "multiply_schema =
     \<lparr>properties = Some [(''a'', PDict [(''title'', PStr ''A'')]),
                          (''b'', PDict [(''title'', PStr ''B'')])],
      defs = None\<rparr>"

definition add_1 :: tool where
  "add_1 = \<lparr>name = ''add'', description = ''Adds two numbers (server 1)'', inputSchema = add_schema\<rparr>"

definition add_4 :: tool where
  "add_4 = \<lparr>name = ''add'', description = ''Adds two numbers (server 4)'', inputSchema = add_schema\<rparr>"

definition multiply_4 :: tool where
  "multiply_4 =
     \<lparr>name = ''multiply'', description = ''Multiplies two numbers'', inputSchema = multiply_schema\<rparr>"

definition server_1 :: config where
  "server_1 = \<lparr>script = ''mcp_server_1.py'', cwd = None, id_key = ''math''\<rparr>"

definition server_3 :: config where
  "server_3 = \<lparr>script = ''mcp_server_3.py'', cwd = None, id_key = ''websearch''\<rparr>"

definition server_4 :: config where
  "server_4 = \<lparr>script = ''mcp_server_4.py'', cwd = Some ''/srv'', id_key = ''mixed''\<rparr>"

text \<open>
  A world in which the first and the third server answer and the second cannot be
  started, every tool call is answered with the text \<^verbatim>\<open>{"result": 5}\<close>, and the library
  functions are given on the few inputs the instances use, with the values CPython
  returns there.
\<close>

definition example_world :: world where
  \<open>example_world =
     \<lparr>os_getcwd = ''/app'',
      list_tools =
        (\<lambda>c. if script c = ''mcp_server_1.py'' then ToolsListed [add_1]
              else if script c = ''mcp_server_4.py'' then ToolsListed [add_4, multiply_4]
              else ConnectFailed ''Connection closed''),
      session_call_tool =
        (\<lambda>c n a. Inr \<lparr>content = [\<lparr>kind = ''text'', text_of = Some ''{"result": 5}''\<rparr>]\<rparr>),
      ast_parse =
        (\<lambda>s. if s = ''add(45, 55)''
              then Some (Call (Name ''add'') [Constant (PInt 45), Constant (PInt 55)] [])
              else if s = ''add(x, 1)''
              then Some (Call (Name ''add'') [Name ''x'', Constant (PInt 1)] [])
              else if s = ''add(1, b=x)''
              then Some (Call (Name ''add'') [Constant (PInt 1)] [(Some ''b'', Name ''x'')])
              else if s = ''math.add(1, 2)''
              then Some (Call (Attribute (Name ''math'') ''add'') [Constant (PInt 1), Constant (PInt 2)] [])
              else if s = ''(1)'' then Some (Constant (PInt 1))
              else None),
      literal_eval = (\<lambda>e. case e of Constant v \<Rightarrow> Some v | _ \<Rightarrow> None),
      json_loads =
        (\<lambda>s. if s = ''{"result": 5}'' then Some (PDict [(''result'', PInt 5)])
              else if s = ''{"ascii_values": [1, 2]}''
              then Some (PDict [(''ascii_values'', PList [PInt 1, PInt 2])])
              else if s = ''[1, 2]'' then Some (PList [PInt 1, PInt 2])
              else None)\<rparr>\<close>

definition example_catalog :: MultiMCP where
  "example_catalog = fst (initialize example_world (MultiMCP_init [server_1, server_3, server_4]))"

text \<open>
  A schema whose single property is not named \<^verbatim>\<open>input\<close> and refers to a definition,
  and one whose property \<^verbatim>\<open>input\<close> refers to the second of two definitions.
\<close>

definition data_schema :: schema where
  "data_schema =
     \<lparr>properties = Some [(''data'', PDict [(''$ref'', PStr ''#/$defs/D'')])],
      defs = Some [(''D'', \<lparr>def_properties = Some [(''a'', PDict [(''type'', PStr ''integer'')])]\<rparr>)]\<rparr>"

definition nested_schema :: schema where
  "nested_schema =
     \<lparr>properties = Some [(''input'', PDict [(''$ref'', PStr ''#/$defs/Order'')])],
      defs = Some [(''Item'', \<lparr>def_properties = Some [(''sku'', PDict [(''type'', PStr ''string'')])]\<rparr>),
                   (''Order'',
                    \<lparr>def_properties = Some [(''item'', PDict [(''$ref'', PStr ''#/$defs/Item'')]),
                                            (''count'', PDict [(''type'', PStr ''integer'')])]\<rparr>)]\<rparr>"

text \<open>
  A schema of the Flat kind whose one parameter is a plain string named \<^verbatim>\<open>input\<close>, as
  a declaration \<^verbatim>\<open>def echo(input: str)\<close> produces, and a server that declares a tool
  with it and a tool with \<open>nested_schema\<close>.
\<close>

definition echo_schema :: schema where
  "echo_schema =
     \<lparr>properties = Some [(''input'', PDict [(''type'', PStr ''string'')])], defs = None\<rparr>"

definition echo_tool :: tool where
  "echo_tool = \<lparr>name = ''echo'', description = ''Returns its input'', inputSchema = echo_schema\<rparr>"

definition order_tool :: tool where
  "order_tool = \<lparr>name = ''order'', description = ''Places an order'', inputSchema = nested_schema\<rparr>"

definition second_world :: world where
  "second_world = example_world\<lparr>list_tools := (\<lambda>c. ToolsListed [echo_tool, order_tool])\<rparr>"

definition second_catalog :: MultiMCP where
  "second_catalog = fst (initialize second_world (MultiMCP_init [server_4]))"

section \<open>The catalog after initialize\<close>

subsection \<open>The name-to-descriptor map\<close>

lemma tool_map_register_tool:
  "tool_map (register_tool c m t) = AList.update (name t) \<lparr>entry_config = c, entry_tool = t\<rparr> (tool_map m)"
  by (simp add: register_tool_def)

lemma map_of_tool_map_register:
  "map_of (tool_map (foldl (register_tool c) m ts)) =
     map_of (rev (map (\<lambda>t. entry_of (c, t)) ts) @ tool_map m)"
proof (induction ts arbitrary: m)
  case Nil
  then show ?case by simp
next
  case (Cons t ts)
  show ?case
    by (simp add: Cons.IH tool_map_register_tool AList.update_conv' entry_of_def map_add_def fun_eq_iff split: option.splits)
qed

lemma server_configs_register [simp]:
  "server_configs (foldl (register_tool c) m ts) = server_configs m"
  by (induction ts arbitrary: m) (simp_all add: register_tool_def)

lemma map_of_tool_map_scan:
  "map_of (tool_map (fst (scan_server w acc c))) =
     map_of (rev (map entry_of (registrations w [c])) @ tool_map (fst acc))"
  by (cases "list_tools w c")
     (simp_all add: scan_server_def Let_def registrations_def listed_def map_of_tool_map_register rev_map comp_def)

lemma registrations_append:
  "registrations w (cs @ ds) = registrations w cs @ registrations w ds"
  by (simp add: registrations_def)

lemma registrations_Cons:
  "registrations w (c # cs) = registrations w [c] @ registrations w cs"
  by (simp add: registrations_def)

lemma map_of_append_cong:
  "map_of ys = map_of zs \<Longrightarrow> map_of (xs @ ys) = map_of (xs @ zs)"
  by (simp add: map_of_append)

lemma map_of_tool_map_scan_all:
  "map_of (tool_map (fst (foldl (scan_server w) acc cs))) =
     map_of (rev (map entry_of (registrations w cs)) @ tool_map (fst acc))"
proof (induction cs arbitrary: acc)
  case Nil
  then show ?case by (simp add: registrations_def)
next
  case (Cons c cs)
  have "map_of (tool_map (fst (foldl (scan_server w) (scan_server w acc c) cs))) =
        map_of (rev (map entry_of (registrations w cs)) @ tool_map (fst (scan_server w acc c)))"
    by (rule Cons.IH)
  also have "\<dots> = map_of (rev (map entry_of (registrations w cs)) @
                      (rev (map entry_of (registrations w [c])) @ tool_map (fst acc)))"
    by (rule map_of_append_cong) (rule map_of_tool_map_scan)
  finally show ?case
    by (simp add: registrations_Cons [of w c cs])
qed

lemma distinct_tool_map_register:
  "distinct (map fst (tool_map m)) \<Longrightarrow> distinct (map fst (tool_map (foldl (register_tool c) m ts)))"
  by (induction ts arbitrary: m) (simp_all add: tool_map_register_tool AList.distinct_update)

lemma distinct_tool_map_scan:
  "distinct (map fst (tool_map (fst acc))) \<Longrightarrow> distinct (map fst (tool_map (fst (scan_server w acc c))))"
  by (cases "list_tools w c") (simp_all add: scan_server_def Let_def distinct_tool_map_register)

lemma distinct_tool_map_scan_all:
  "distinct (map fst (tool_map (fst acc))) \<Longrightarrow>
   distinct (map fst (tool_map (fst (foldl (scan_server w) acc cs))))"
  by (induction cs arbitrary: acc) (simp_all add: distinct_tool_map_scan)

lemma map_of_rev_entries:
  "map_of (rev (map entry_of rs)) n = map_option (snd \<circ> entry_of) (last_registration n rs)"
proof (induction rs)
  case Nil
  then show ?case by simp
next
  case (Cons r rs)
  then show ?case
    by (cases "last_registration n rs") (auto simp: map_of_append map_add_def entry_of_def split: option.splits)
qed

lemma keys_registrations:
  "fst ` set (map entry_of (registrations w cs)) = (\<Union>c\<in>set cs. name ` set (listed (list_tools w c)))"
  by (fastforce simp: registrations_def entry_of_def image_iff)

lemma dom_tool_map_scan_all:
  "fst ` set (tool_map (fst (foldl (scan_server w) acc cs))) =
     fst ` set (map entry_of (registrations w cs)) \<union> fst ` set (tool_map (fst acc))"
proof -
  have "dom (map_of (tool_map (fst (foldl (scan_server w) acc cs)))) =
        dom (map_of (rev (map entry_of (registrations w cs)) @ tool_map (fst acc)))"
    by (simp only: map_of_tool_map_scan_all)
  then show ?thesis
    by (simp add: dom_map_of_conv_image_fst image_Un Un_commute)
qed

subsection \<open>The per-provider grouping\<close>

lemma map_of_add_server_tool:
  "map_of (add_server_tool k t st) =
     (map_of st)(k \<mapsto> (case map_of st k of None \<Rightarrow> [] | Some ts \<Rightarrow> ts) @ [t])"
  by (auto simp: add_server_tool_def Let_def AList.map_of_map_entry AList.update_conv' fun_eq_iff
           split: option.splits)

lemma server_tools_register_tool:
  "server_tools (register_tool c m t) = add_server_tool (id_key c) t (server_tools m)"
  by (simp add: register_tool_def)

lemma map_of_server_tools_register:
  "map_of (server_tools (foldl (register_tool c) m ts)) pid =
     (if id_key c = pid \<and> ts \<noteq> []
      then Some ((case map_of (server_tools m) pid of None \<Rightarrow> [] | Some old \<Rightarrow> old) @ ts)
      else map_of (server_tools m) pid)"
proof (induction ts arbitrary: m)
  case Nil
  then show ?case by simp
next
  case (Cons t ts)
  show ?case
    by (simp add: Cons.IH server_tools_register_tool map_of_add_server_tool)
qed

lemma fst_scan_server:
  "fst (scan_server w acc c) = foldl (register_tool c) (fst acc) (listed (list_tools w c))"
  by (cases "list_tools w c") (simp_all add: scan_server_def Let_def listed_def)

lemma fst_scan_all:
  "fst (foldl (scan_server w) acc cs) =
     foldl (\<lambda>m c. foldl (register_tool c) m (listed (list_tools w c))) (fst acc) cs"
  by (induction cs arbitrary: acc) (simp_all add: fst_scan_server)

lemma tools_of_append: "tools_of pid (rs @ rs') = tools_of pid rs @ tools_of pid rs'"
  by (simp add: tools_of_def)

lemma tools_of_single:
  "tools_of pid (registrations w [c]) = (if id_key c = pid then listed (list_tools w c) else [])"
  by (simp add: tools_of_def registrations_def comp_def)

lemma map_of_server_tools_all:
  "map_of (server_tools (foldl (\<lambda>m c. foldl (register_tool c) m (listed (list_tools w c))) m cs)) pid =
     (if tools_of pid (registrations w cs) = [] then map_of (server_tools m) pid
      else Some ((case map_of (server_tools m) pid of None \<Rightarrow> [] | Some old \<Rightarrow> old)
                 @ tools_of pid (registrations w cs)))"
proof (induction cs arbitrary: m)
  case Nil
  then show ?case by (simp add: registrations_def tools_of_def)
next
  case (Cons c cs)
  show ?case
    by (simp add: Cons.IH registrations_Cons [of w c cs] tools_of_append tools_of_single
        map_of_server_tools_register)
qed

lemma server_tools_initialize:
  "map_of (server_tools (fst (initialize w (MultiMCP_init cs)))) pid =
     (if tools_of pid (registrations w cs) = [] then None
      else Some (tools_of pid (registrations w cs)))"
  by (simp add: initialize_def fst_scan_all map_of_server_tools_all MultiMCP_init_def)

subsection \<open>Failed providers\<close>



lemma listed_unreachable: "\<not> reachable w c \<Longrightarrow> listed (list_tools w c) = []"
  by (cases "list_tools w c") (simp_all add: reachable_def listed_def)


lemma registrations_reachable_only:
  "registrations w (filter (reachable w) cs) = registrations w cs"
  by (induction cs) (simp_all add: registrations_def listed_unreachable)




lemma server_configs_init: "server_configs (MultiMCP_init cs) = cs"
  by (simp add: MultiMCP_init_def)



subsection \<open>The last registration under a name\<close>

lemma last_registration_Some:
  "last_registration n rs = Some r \<Longrightarrow> name (snd r) = n \<and> r \<in> set rs"
  by (induction rs) (auto split: option.splits if_splits)

lemma last_registration_None_iff:
  "last_registration n rs = None \<longleftrightarrow> n \<notin> set (map (name \<circ> snd) rs)"
  by (induction rs) (auto split: option.splits)

lemma last_registration_append:
  "last_registration n (rs @ rs') =
     (case last_registration n rs' of Some r \<Rightarrow> Some r | None \<Rightarrow> last_registration n rs)"
  by (induction rs) (auto split: option.splits)

lemma last_registration_here:
  "name t \<notin> set (map (name \<circ> snd) rs') \<Longrightarrow>
   last_registration (name t) (rs @ (c, t) # rs') = Some (c, t)"
proof -
  assume "name t \<notin> set (map (name \<circ> snd) rs')"
  then have none: "last_registration (name t) rs' = None"
    using last_registration_None_iff [of "name t" rs'] by blast
  have "last_registration (name t) ((c, t) # rs') = Some (c, t)"
    by (simp add: none)
  then show ?thesis
    by (simp add: last_registration_append [of "name t" rs "(c, t) # rs'"] del: last_registration.simps)
qed

lemma map_of_tool_map_initialize:
  "map_of (tool_map (fst (initialize w (MultiMCP_init cs)))) n =
     map_option (\<lambda>r. \<lparr>entry_config = fst r, entry_tool = snd r\<rparr>)
       (last_registration n (registrations w cs))"
proof -
  have empty: "tool_map (fst (MultiMCP_init cs, [InMultiMCPInitialize])) = []"
    by (simp add: MultiMCP_init_def)
  have "map_of (tool_map (fst (initialize w (MultiMCP_init cs)))) n =
        map_of (rev (map entry_of (registrations w cs))) n"
    unfolding initialize_def server_configs_init map_of_tool_map_scan_all empty by simp
  also have "\<dots> = map_option (snd \<circ> entry_of) (last_registration n (registrations w cs))"
    by (rule map_of_rev_entries)
  also have "snd \<circ> entry_of = (\<lambda>r. \<lparr>entry_config = fst r, entry_tool = snd r\<rparr>)"
    by (simp add: fun_eq_iff entry_of_def)
  finally show ?thesis .
qed

lemma tools_of_mem:
  "t \<in> set (tools_of pid rs) \<longleftrightarrow> (\<exists>c. id_key c = pid \<and> (c, t) \<in> set rs)"
  by (auto simp: tools_of_def image_iff)

subsection \<open>The worked catalog\<close>

lemma example_catalog_eq:
  "example_catalog =
     \<lparr>server_configs = [server_1, server_3, server_4],
      tool_map = [(''add'', \<lparr>entry_config = server_4, entry_tool = add_4\<rparr>),
                  (''multiply'', \<lparr>entry_config = server_4, entry_tool = multiply_4\<rparr>)],
      server_tools = [(''math'', [add_1]), (''mixed'', [add_4, multiply_4])]\<rparr>"
  by (simp add: example_catalog_def initialize_def MultiMCP_init_def scan_server_def
      example_world_def server_1_def server_3_def server_4_def register_tool_def
      add_server_tool_def Let_def add_1_def add_4_def multiply_4_def)

lemma example_registrations:
  "registrations example_world [server_1, server_3, server_4] =
     [(server_1, add_1)] @ (server_4, add_4) # [(server_4, multiply_4)]"
  by (simp add: registrations_def listed_def example_world_def server_1_def server_3_def
      server_4_def)

lemma add_1_neq_add_4: "add_1 \<noteq> add_4"
  by (simp add: add_1_def add_4_def)

subsection \<open>Claims about initialize\<close>

text \<open>
  Claim C1. For every list of provider descriptors, after \<^verbatim>\<open>initialize\<close> has processed
  them in declaration order, the keys of \<^verbatim>\<open>tool_map\<close>, which \<^verbatim>\<open>list_all_tools\<close> returns
  (each once), are exactly the tool names declared by the reachable providers, and the
  entry under a name is the last registration under that name: the descriptor and tool
  of the provider that declares it latest in declaration order.
\<close>

theorem initialize_catalog_last_wins:
  "set (list_all_tools (fst (initialize w (MultiMCP_init cs)))) =
     (\<Union>c\<in>set cs. name ` set (listed (list_tools w c)))
   \<and> distinct (list_all_tools (fst (initialize w (MultiMCP_init cs))))
   \<and> map_of (tool_map (fst (initialize w (MultiMCP_init cs)))) n =
       map_option (\<lambda>r. \<lparr>entry_config = fst r, entry_tool = snd r\<rparr>)
         (last_registration n (registrations w cs))"
proof (intro conjI)
  let ?m = "fst (initialize w (MultiMCP_init cs))"
  have init: "?m = fst (foldl (scan_server w) (MultiMCP_init cs, [InMultiMCPInitialize]) cs)"
    by (simp add: initialize_def MultiMCP_init_def)
  have empty: "tool_map (fst (MultiMCP_init cs, [InMultiMCPInitialize])) = []"
    by (simp add: MultiMCP_init_def)
  show "set (list_all_tools ?m) = (\<Union>c\<in>set cs. name ` set (listed (list_tools w c)))"
    unfolding init list_all_tools_def keys_def set_map dom_tool_map_scan_all empty
    using keys_registrations [of w cs] by simp
  show "distinct (list_all_tools ?m)"
    unfolding init list_all_tools_def keys_def
    by (rule distinct_tool_map_scan_all) (simp add: MultiMCP_init_def)
  have "map_of (tool_map ?m) n = map_of (rev (map entry_of (registrations w cs))) n"
    unfolding init map_of_tool_map_scan_all empty by simp
  also have "\<dots> = map_option (snd \<circ> entry_of) (last_registration n (registrations w cs))"
    by (rule map_of_rev_entries)
  also have "snd \<circ> entry_of = (\<lambda>r. \<lparr>entry_config = fst r, entry_tool = snd r\<rparr>)"
    by (simp add: fun_eq_iff entry_of_def)
  finally show "map_of (tool_map ?m) n =
       map_option (\<lambda>r. \<lparr>entry_config = fst r, entry_tool = snd r\<rparr>)
         (last_registration n (registrations w cs))" .
qed


text \<open>
  Claim C9, as amended. After \<^verbatim>\<open>initialize\<close>, for every provider id and every tool
  recorded under it in \<^verbatim>\<open>server_tools\<close>: the tool was registered by a provider of that
  id; its name is a key of \<^verbatim>\<open>tool_map\<close>; the entry under that name has the same name
  and is the last registration under it; and the entry is this very tool, with its
  provider's descriptor, whenever no registration of the same name follows it. The
  claim as first stated, that the descriptor itself is in \<^verbatim>\<open>tool_map\<close> even when a
  later provider declared a tool of the same name, fails at the instance that follows
  the theorem.
\<close>

theorem server_tools_names_in_tool_map:
  assumes grouped: "map_of (server_tools (fst (initialize w (MultiMCP_init cs)))) pid = Some ts"
    and member: "t \<in> set ts"
  shows "name t \<in> set (list_all_tools (fst (initialize w (MultiMCP_init cs))))
    \<and> (\<exists>c. id_key c = pid \<and> (c, t) \<in> set (registrations w cs))
    \<and> (\<exists>e. map_of (tool_map (fst (initialize w (MultiMCP_init cs)))) (name t) = Some e
           \<and> name (entry_tool e) = name t
           \<and> last_registration (name t) (registrations w cs) = Some (entry_config e, entry_tool e))
    \<and> (\<forall>rs c rs'. registrations w cs = rs @ (c, t) # rs' \<and>
                    name t \<notin> set (map (name \<circ> snd) rs') \<longrightarrow>
           map_of (tool_map (fst (initialize w (MultiMCP_init cs)))) (name t) =
             Some \<lparr>entry_config = c, entry_tool = t\<rparr>)"
proof -
  let ?m = "fst (initialize w (MultiMCP_init cs))"
  let ?rs = "registrations w cs"
  from grouped have ts: "ts = tools_of pid ?rs"
    by (simp add: server_tools_initialize split: if_splits)
  with member obtain c where c: "id_key c = pid" "(c, t) \<in> set ?rs"
    by (auto simp: tools_of_mem)
  then have "name t \<in> set (map (name \<circ> snd) ?rs)"
    by force
  then have "last_registration (name t) ?rs \<noteq> None"
    using last_registration_None_iff [of "name t" ?rs] by blast
  then obtain r where r: "last_registration (name t) ?rs = Some r"
    by blast
  then have rname: "name (snd r) = name t"
    by (simp add: last_registration_Some)
  have look: "map_of (tool_map ?m) (name t) = Some \<lparr>entry_config = fst r, entry_tool = snd r\<rparr>"
    by (simp add: map_of_tool_map_initialize r)
  have key: "name t \<in> set (list_all_tools ?m)"
    using look by (auto simp: list_all_tools_def keys_def dest: map_of_SomeD intro: rev_image_eqI)
  have ex: "\<exists>e. map_of (tool_map ?m) (name t) = Some e \<and> name (entry_tool e) = name t
           \<and> last_registration (name t) ?rs = Some (entry_config e, entry_tool e)"
    using look rname r by simp
  have later: "\<forall>rs c rs'. ?rs = rs @ (c, t) # rs' \<and> name t \<notin> set (map (name \<circ> snd) rs') \<longrightarrow>
           map_of (tool_map ?m) (name t) = Some \<lparr>entry_config = c, entry_tool = t\<rparr>"
    by (auto simp add: map_of_tool_map_initialize last_registration_here simp del: last_registration.simps)
  from key c ex later show ?thesis by blast
qed

text \<open>
  The instance that refutes claim C9 as first stated: servers 1 and 4 both declare
  \<^verbatim>\<open>add\<close>. The tool of server 1 stays in \<^verbatim>\<open>server_tools["math"]\<close>, and
  \<^verbatim>\<open>tool_map["add"]\<close> holds the tool of server 4, a different descriptor.
\<close>

theorem server_tools_descriptor_overwritten:
  "map_of (server_tools example_catalog) ''math'' = Some [add_1]
   \<and> get_tools_from_servers example_catalog [''math''] = [add_1]
   \<and> get_all_tools example_catalog = [add_4, multiply_4]
   \<and> add_1 \<notin> set (get_all_tools example_catalog)
   \<and> map_of (tool_map example_catalog) (name add_1) =
       Some \<lparr>entry_config = server_4, entry_tool = add_4\<rparr>
   \<and> add_4 \<noteq> add_1"
  by (simp add: example_catalog_eq get_tools_from_servers_def get_all_tools_def)
     (simp add: add_1_def add_4_def multiply_4_def)

text \<open>
  The amended claim C9 at the tool \<^verbatim>\<open>add\<close> of server 4, which no later registration
  overwrites.
\<close>

theorem server_tools_names_in_tool_map_witness:
  "map_of (server_tools example_catalog) ''mixed'' = Some [add_4, multiply_4]
   \<and> add_4 \<in> set [add_4, multiply_4]
   \<and> name add_4 \<in> set (list_all_tools example_catalog)
   \<and> map_of (tool_map example_catalog) (name add_4) =
       Some \<lparr>entry_config = server_4, entry_tool = add_4\<rparr>"
proof -
  have h1: "map_of (server_tools (fst (initialize example_world
              (MultiMCP_init [server_1, server_3, server_4])))) ''mixed'' = Some [add_4, multiply_4]"
    using example_catalog_eq by (simp add: example_catalog_def)
  have h2: "add_4 \<in> set [add_4, multiply_4]"
    by simp
  have later: "name add_4 \<notin> set (map (name \<circ> snd) [(server_4, multiply_4)])"
    by (simp add: add_4_def multiply_4_def)
  from server_tools_names_in_tool_map [OF h1 h2] example_registrations later
  have "name add_4 \<in> set (list_all_tools example_catalog)
      \<and> map_of (tool_map example_catalog) (name add_4) =
          Some \<lparr>entry_config = server_4, entry_tool = add_4\<rparr>"
    unfolding example_catalog_def by blast
  with h1 h2 show ?thesis
    unfolding example_catalog_def by blast
qed

section \<open>Normalizing the reply\<close>

lemma parse_content_cases:
  "parse_content w r = Inr x \<longleftrightarrow>
     (\<exists>p ps t. content r = p # ps \<and> text_of p = Some t \<and> json_loads w (strip t) = Some x)"
  by (auto simp: parse_content_def split: list.splits option.splits)

text \<open>
  Claim C2. For every envelope the normalization returns a value and never raises: the
  envelope itself or a parsed value. \<open>parse_content w r = Inr x\<close> says that the text of
  the first content part, stripped, parses as \<open>x\<close> (last conjunct); \<open>Inl e\<close> that there
  is no first part, that it has no text, or that \<^verbatim>\<open>json.loads\<close> raised. A mapping with
  the key \<^verbatim>\<open>"result"\<close> gives the value under it; another mapping with exactly one key
  gives that key's value; any other mapping, and any value that is not a mapping, is
  returned as it is; when nothing parses the envelope is returned unchanged.
\<close>

theorem normalize_output_cases:
  "(parse_content w r = Inl e \<longrightarrow> normalize_output w r = RawEnvelope r)
   \<and> (content r = [] \<longrightarrow> parse_content w r = Inl IndexError)
   \<and> (parse_content w r = Inr (PDict d) \<and> map_of d ''result'' = Some v \<longrightarrow>
         normalize_output w r = Parsed v)
   \<and> (parse_content w r = Inr (PDict [(k, v)]) \<and> k \<noteq> ''result'' \<longrightarrow>
         normalize_output w r = Parsed v)
   \<and> (parse_content w r = Inr (PDict d) \<and> map_of d ''result'' = None \<and> length d \<noteq> 1 \<longrightarrow>
         normalize_output w r = Parsed (PDict d))
   \<and> (parse_content w r = Inr x \<and> (\<forall>d'. x \<noteq> PDict d') \<longrightarrow> normalize_output w r = Parsed x)
   \<and> (normalize_output w r = RawEnvelope r \<or> (\<exists>x. normalize_output w r = Parsed x))
   \<and> (parse_content w r = Inr x \<longleftrightarrow>
        (\<exists>p ps t. content r = p # ps \<and> text_of p = Some t \<and> json_loads w (strip t) = Some x))"
proof (intro conjI impI)
  show "parse_content w r = Inr x \<longleftrightarrow>
        (\<exists>p ps t. content r = p # ps \<and> text_of p = Some t \<and> json_loads w (strip t) = Some x)"
    by (rule parse_content_cases)
  show "normalize_output w r = RawEnvelope r" if "parse_content w r = Inl e"
    using that by (simp add: normalize_output_def)
  show "parse_content w r = Inl IndexError" if "content r = []"
    using that by (simp add: parse_content_def)
  show "normalize_output w r = Parsed v"
    if "parse_content w r = Inr (PDict d) \<and> map_of d ''result'' = Some v"
    using that by (simp add: normalize_output_def)
  show "normalize_output w r = Parsed v"
    if "parse_content w r = Inr (PDict [(k, v)]) \<and> k \<noteq> ''result''"
    using that by (simp add: normalize_output_def)
  show "normalize_output w r = Parsed (PDict d)"
    if "parse_content w r = Inr (PDict d) \<and> map_of d ''result'' = None \<and> length d \<noteq> 1"
    using that by (auto simp: normalize_output_def split: list.splits)
  show "normalize_output w r = Parsed x" if "parse_content w r = Inr x \<and> (\<forall>d'. x \<noteq> PDict d')"
    using that by (cases x) (simp_all add: normalize_output_def)
  show "normalize_output w r = RawEnvelope r \<or> (\<exists>x. normalize_output w r = Parsed x)"
    by (auto simp: normalize_output_def split: sum.splits pyval.splits option.splits list.splits)
qed

text \<open>
  Claim C2 at five replies: a mapping with \<^verbatim>\<open>"result"\<close>, a mapping with one other key,
  a list, a text that is not JSON, and an envelope with no content part.
\<close>

theorem normalize_output_cases_witness:
  \<open>normalize_output example_world \<lparr>content = [\<lparr>kind = ''text'', text_of = Some '' {"result": 5} ''\<rparr>]\<rparr>
      = Parsed (PInt 5)
   \<and> normalize_output example_world
        \<lparr>content = [\<lparr>kind = ''text'', text_of = Some ''{"ascii_values": [1, 2]}''\<rparr>]\<rparr>
      = Parsed (PList [PInt 1, PInt 2])
   \<and> normalize_output example_world \<lparr>content = [\<lparr>kind = ''text'', text_of = Some ''[1, 2]''\<rparr>]\<rparr>
      = Parsed (PList [PInt 1, PInt 2])
   \<and> normalize_output example_world \<lparr>content = [\<lparr>kind = ''text'', text_of = Some ''not-json''\<rparr>]\<rparr>
      = RawEnvelope \<lparr>content = [\<lparr>kind = ''text'', text_of = Some ''not-json''\<rparr>]\<rparr>
   \<and> normalize_output example_world \<lparr>content = []\<rparr> = RawEnvelope \<lparr>content = []\<rparr>\<close>
proof -
  let ?r1 = \<open>\<lparr>content = [\<lparr>kind = ''text'', text_of = Some '' {"result": 5} ''\<rparr>]\<rparr>\<close>
  let ?r2 = \<open>\<lparr>content = [\<lparr>kind = ''text'', text_of = Some ''{"ascii_values": [1, 2]}''\<rparr>]\<rparr>\<close>
  let ?r3 = \<open>\<lparr>content = [\<lparr>kind = ''text'', text_of = Some ''[1, 2]''\<rparr>]\<rparr>\<close>
  let ?r4 = \<open>\<lparr>content = [\<lparr>kind = ''text'', text_of = Some ''not-json''\<rparr>]\<rparr>\<close>
  let ?r5 = \<open>\<lparr>content = []\<rparr> :: envelope\<close>
  have p1: "parse_content example_world ?r1 = Inr (PDict [(''result'', PInt 5)])"
    by (simp add: parse_content_def example_world_def strip_def py_isspace_def)
  have p2: "parse_content example_world ?r2 = Inr (PDict [(''ascii_values'', PList [PInt 1, PInt 2])])"
    by (simp add: parse_content_def example_world_def strip_def py_isspace_def)
  have p3: "parse_content example_world ?r3 = Inr (PList [PInt 1, PInt 2])"
    by (simp add: parse_content_def example_world_def strip_def py_isspace_def)
  have p4: "parse_content example_world ?r4 = Inl JSONDecodeError"
    by (simp add: parse_content_def example_world_def strip_def py_isspace_def)
  have p5: "parse_content example_world ?r5 = Inl IndexError"
    by (simp add: parse_content_def)
  have "normalize_output example_world ?r1 = Parsed (PInt 5)"
    using normalize_output_cases [of example_world ?r1 _ "[(''result'', PInt 5)]" "PInt 5"] p1 by simp
  moreover have "normalize_output example_world ?r2 = Parsed (PList [PInt 1, PInt 2])"
    using normalize_output_cases [of example_world ?r2 _ _ "PList [PInt 1, PInt 2]" "''ascii_values''"] p2
    by simp
  moreover have "normalize_output example_world ?r3 = Parsed (PList [PInt 1, PInt 2])"
    using normalize_output_cases [of example_world ?r3 _ _ _ _ "PList [PInt 1, PInt 2]"] p3 by simp
  moreover have "normalize_output example_world ?r4 = RawEnvelope ?r4"
    using normalize_output_cases [of example_world ?r4 JSONDecodeError] p4 by simp
  moreover have "normalize_output example_world ?r5 = RawEnvelope ?r5"
    using normalize_output_cases [of example_world ?r5 IndexError] p5 by simp
  ultimately show ?thesis by blast
qed

section \<open>Calling a tool\<close>

subsection \<open>Payloads and dispatch\<close>

lemma update_fresh: "k \<notin> fst ` set d \<Longrightarrow> AList.update k v d = d @ [(k, v)]"
  by (induction d) auto

lemma foldl_update_distinct:
  "distinct (map fst (d @ kvs)) \<Longrightarrow>
   foldl (\<lambda>d (k, v). AList.update k v d) d kvs = d @ kvs"
proof (induction kvs arbitrary: d)
  case Nil
  then show ?case by simp
next
  case (Cons kv kvs)
  obtain k v where kv: "kv = (k, v)" by (cases kv)
  from Cons.prems have fresh: "k \<notin> fst ` set d"
    by (auto simp: kv)
  from Cons.prems have "distinct (map fst ((d @ [(k, v)]) @ kvs))"
    by (simp add: kv)
  then have "foldl (\<lambda>d (k, v). AList.update k v d) (d @ [(k, v)]) kvs = (d @ [(k, v)]) @ kvs"
    by (rule Cons.IH)
  then show ?case
    by (simp add: kv update_fresh [OF fresh])
qed

lemma dict_of_distinct: "distinct (map fst kvs) \<Longrightarrow> dict_of kvs = kvs"
  using foldl_update_distinct [of "[]" kvs] by (simp add: dict_of_def)

lemma dict_of_zip:
  "distinct ks \<Longrightarrow> length ks = length vs \<Longrightarrow> dict_of (zip ks vs) = zip ks vs"
  by (rule dict_of_distinct) simp

lemma build_flat:
  "properties sch = Some props \<Longrightarrow> ''input'' \<notin> set (keys props) \<Longrightarrow>
   build_input_payload n sch args =
     (if length props \<noteq> length args
      then Inl (ArgumentCountError n (length props) (length args))
      else Inr (PDict (dict_of (zip (keys props) args))))"
  by (simp add: build_input_payload_def keys_def Let_def)

lemma build_wrapped:
  "properties sch = Some props \<Longrightarrow> ''input'' \<in> set (keys props) \<Longrightarrow>
   defs sch = Some ((inner_key, inner_def) # more_defs) \<Longrightarrow>
   def_properties inner_def = Some inner_props \<Longrightarrow>
   build_input_payload n sch args =
     (if length inner_props \<noteq> length args
      then Inl (ArgumentCountError n (length inner_props) (length args))
      else Inr (PDict [(''input'', PDict (dict_of (zip (keys inner_props) args)))]))"
  by (simp add: build_input_payload_def keys_def Let_def)

lemma call_tool_found:
  "map_of (tool_map m) n = Some e \<Longrightarrow>
   snd (call_tool w m n payload) = [(entry_config e, n, payload)]"
  by (simp add: call_tool_def split: sum.splits)

lemma invoke_payload_error:
  "map_of (tool_map m) n = Some e \<Longrightarrow>
   build_input_payload n (inputSchema (entry_tool e)) args = Inl err \<Longrightarrow>
   invoke w m n args = (Inl err, [])"
  by (simp add: invoke_def)

lemma invoke_dispatch:
  "map_of (tool_map m) n = Some e \<Longrightarrow>
   build_input_payload n (inputSchema (entry_tool e)) args = Inr payload \<Longrightarrow>
   snd (invoke w m n args) = [(entry_config e, n, payload)]"
  by (auto simp: invoke_def call_tool_def split: sum.splits prod.splits)

lemma invoke_result:
  "map_of (tool_map m) n = Some e \<Longrightarrow>
   build_input_payload n (inputSchema (entry_tool e)) args = Inr payload \<Longrightarrow>
   fst (invoke w m n args) =
     (case session_call_tool w (entry_config e) n payload of
        Inl x \<Rightarrow> Inl (ProviderError x)
      | Inr result \<Rightarrow> Inr (normalize_output w result))"
  by (auto simp: invoke_def call_tool_def split: sum.splits prod.splits)

lemma function_wrapper_resolved:
  "handle_function_string w tool_name args0 = Inr (n, args) \<Longrightarrow>
   function_wrapper w m tool_name args0 = invoke w m n args"
  by (simp add: function_wrapper_def)

lemma handle_structured:
  "args \<noteq> [] \<Longrightarrow> handle_function_string w tool_name args = Inr (tool_name, args)"
  by (simp add: handle_function_string_def)

lemma parse_call_ignores_keywords:
  "ast_parse w stripped = Some (Call (Name f) positional keywords) \<Longrightarrow>
   parse_call w tool_name stripped =
     (case those (map (literal_eval w) positional) of
        None \<Rightarrow> Inl (ParseError f LiteralEvalRaised)
      | Some vs \<Rightarrow> Inr (f, vs))"
  by (simp add: parse_call_def)

subsection \<open>The worked calls\<close>

lemma example_multiply:
  "map_of (tool_map example_catalog) ''multiply'' =
     Some \<lparr>entry_config = server_4, entry_tool = multiply_4\<rparr>"
  by (simp add: example_catalog_eq)

lemma example_add:
  "map_of (tool_map example_catalog) ''add'' =
     Some \<lparr>entry_config = server_4, entry_tool = add_4\<rparr>"
  by (simp add: example_catalog_eq)

lemma example_reply:
  \<open>session_call_tool example_world c n a =
     Inr \<lparr>content = [\<lparr>kind = ''text'', text_of = Some ''{"result": 5}''\<rparr>]\<rparr>\<close>
  by (simp add: example_world_def)

lemma example_normalized:
  \<open>normalize_output example_world
     \<lparr>content = [\<lparr>kind = ''text'', text_of = Some ''{"result": 5}''\<rparr>]\<rparr> = Parsed (PInt 5)\<close>
  by (simp add: normalize_output_def parse_content_def example_world_def strip_def py_isspace_def)

lemma example_function_string:
  "handle_function_string example_world '' add(45, 55) '' [] = Inr (''add'', [PInt 45, PInt 55])"
  by (simp add: handle_function_string_def Let_def strip_def py_isspace_def endswith_def
      parse_call_def example_world_def)

lemma second_catalog_eq:
  "second_catalog =
     \<lparr>server_configs = [server_4],
      tool_map = [(''echo'', \<lparr>entry_config = server_4, entry_tool = echo_tool\<rparr>),
                  (''order'', \<lparr>entry_config = server_4, entry_tool = order_tool\<rparr>)],
      server_tools = [(''mixed'', [echo_tool, order_tool])]\<rparr>"
  by (simp add: second_catalog_def second_world_def initialize_def MultiMCP_init_def
      scan_server_def server_4_def register_tool_def add_server_tool_def Let_def
      echo_tool_def order_tool_def)

lemma second_reply:
  \<open>session_call_tool second_world c n a =
     Inr \<lparr>content = [\<lparr>kind = ''text'', text_of = Some ''{"result": 5}''\<rparr>]\<rparr>\<close>
  by (simp add: second_world_def example_world_def)

lemma second_normalized:
  \<open>normalize_output second_world
     \<lparr>content = [\<lparr>kind = ''text'', text_of = Some ''{"result": 5}''\<rparr>]\<rparr> = Parsed (PInt 5)\<close>
  by (simp add: normalize_output_def parse_content_def second_world_def example_world_def
      strip_def py_isspace_def)

lemma example_invoke_add:
  "invoke example_world example_catalog ''add'' [PInt 45, PInt 55] =
     (Inr (Parsed (PInt 5)),
      [(server_4, ''add'', PDict [(''input'', PDict [(''a'', PInt 45), (''b'', PInt 55)])])])"
  by (simp add: invoke_def example_add add_4_def add_schema_def build_input_payload_def keys_def
      dict_of_def Let_def call_tool_def example_reply example_normalized)

subsection \<open>Claims about function_wrapper\<close>

text \<open>
  In the theorems below a call \<^verbatim>\<open>function_wrapper(tool_name, *args0)\<close> has been resolved
  by lines 175 to 185 to the name \<open>n\<close> and the arguments \<open>args\<close>: either as given
  (the structured form) or parsed from a function string. \<open>e\<close> is the catalog's entry
  for \<open>n\<close>.
\<close>

text \<open>
  Claim C5, as amended. For every tool whose schema has \<^verbatim>\<open>"properties"\<close>, none of them
  named \<^verbatim>\<open>input\<close> (the test of line 198, by which the code takes a schema for Flat),
  with declared properties \<open>p\<^sub>1 \<dots> p\<^sub>n\<close>, a call with exactly \<open>n\<close> arguments
  builds the payload \<open>{p\<^sub>i: args[i]}\<close>, zipped in declared order, and sends it to
  the provider that owns the tool, once. The claim as first stated, for every schema of
  the Flat shape, fails at the instance that follows the theorem.
\<close>

theorem flat_schema_payload:
  assumes resolved: "handle_function_string w tool_name args0 = Inr (n, args)"
    and found: "map_of (tool_map m) n = Some e"
    and flat: "properties (inputSchema (entry_tool e)) = Some props"
      "''input'' \<notin> set (keys props)"
    and dict: "distinct (keys props)"
    and count: "length args = length props"
  shows "build_input_payload n (inputSchema (entry_tool e)) args =
           Inr (PDict (zip (keys props) args))
    \<and> snd (function_wrapper w m tool_name args0) =
           [(entry_config e, n, PDict (zip (keys props) args))]
    \<and> fst (function_wrapper w m tool_name args0) =
           (case session_call_tool w (entry_config e) n (PDict (zip (keys props) args)) of
              Inl x \<Rightarrow> Inl (ProviderError x)
            | Inr result \<Rightarrow> Inr (normalize_output w result))"
proof -
  have len: "length (keys props) = length args"
    using count by (simp add: keys_def)
  have payload: "build_input_payload n (inputSchema (entry_tool e)) args =
      Inr (PDict (zip (keys props) args))"
    using build_flat [OF flat, of n args] count dict_of_zip [OF dict len] by simp
  show ?thesis
    using payload invoke_dispatch [OF found payload] invoke_result [OF found payload]
    by (simp add: function_wrapper_resolved [OF resolved])
qed

text \<open>
  The instance that refutes claim C5 as first stated. \<open>echo_schema\<close> is Flat: its one
  property, a plain string, references no definition. The property is named
  \<^verbatim>\<open>input\<close>, so line 198 sends the call to the other branch, where
  \<^verbatim>\<open>schema["$defs"]\<close> raises \<^verbatim>\<open>KeyError\<close>: with exactly one argument no payload is built
  and nothing is sent.
\<close>

theorem flat_schema_with_input_property:
  "properties echo_schema = Some [(''input'', PDict [(''type'', PStr ''string'')])]
   \<and> defs echo_schema = None
   \<and> spec_wrapped_inner_properties echo_schema = None
   \<and> map_of (tool_map second_catalog) ''echo'' =
       Some \<lparr>entry_config = server_4, entry_tool = echo_tool\<rparr>
   \<and> build_input_payload ''echo'' echo_schema [PStr ''hello''] = Inl (KeyError (Some ''$defs''))
   \<and> function_wrapper second_world second_catalog ''echo'' [PStr ''hello''] =
       (Inl (KeyError (Some ''$defs'')), [])"
  by (simp add: echo_schema_def spec_wrapped_inner_properties_def ref_of_def second_catalog_eq
      function_wrapper_def handle_function_string_def invoke_def build_input_payload_def
      keys_def echo_tool_def)

text \<open>
  The amended claim C5 at \<^verbatim>\<open>multiply(a, b)\<close> of server 4 with the arguments 2 and 3: the payload is
  \<^verbatim>\<open>{"a": 2, "b": 3}\<close>.
\<close>

theorem flat_schema_payload_witness:
  "snd (function_wrapper example_world example_catalog ''multiply'' [PInt 2, PInt 3]) =
     [(server_4, ''multiply'', PDict [(''a'', PInt 2), (''b'', PInt 3)])]
   \<and> fst (function_wrapper example_world example_catalog ''multiply'' [PInt 2, PInt 3]) =
       Inr (Parsed (PInt 5))"
proof -
  let ?props = "[(''a'', PDict [(''title'', PStr ''A'')]), (''b'', PDict [(''title'', PStr ''B'')])]"
  have h1: "handle_function_string example_world ''multiply'' [PInt 2, PInt 3] =
      Inr (''multiply'', [PInt 2, PInt 3])"
    by (simp add: handle_structured)
  have h3: "properties (inputSchema (entry_tool \<lparr>entry_config = server_4, entry_tool = multiply_4\<rparr>)) =
      Some ?props"
    by (simp add: multiply_4_def multiply_schema_def)
  have h4: "''input'' \<notin> set (keys ?props)" by (simp add: keys_def)
  have h5: "distinct (keys ?props)" by (simp add: keys_def)
  have h6: "length [PInt 2, PInt 3] = length ?props" by simp
  from flat_schema_payload [OF h1 example_multiply h3 h4 h5 h6]
  show ?thesis
    by (simp add: keys_def example_reply example_normalized)
qed

text \<open>
  Claim C3, as amended. For every tool whose schema has a top-level property named
  \<^verbatim>\<open>input\<close> (the only test line 198 makes: neither the number of properties nor a
  reference is looked at), a call with \<open>n\<close> arguments, where \<open>p\<^sub>1 \<dots> p\<^sub>n\<close> are the
  properties of the first definition listed under \<^verbatim>\<open>"$defs"\<close>, builds the payload
  \<open>{"input": {p\<^sub>i: args[i]}}\<close>, zipped in declared order, and sends it to the
  provider that owns the tool, once. The claim as first stated, with the Wrapped shape
  detected as exactly one top-level property that references another definition, fails
  at the instances that follow the theorem.
\<close>

theorem wrapped_schema_payload:
  assumes resolved: "handle_function_string w tool_name args0 = Inr (n, args)"
    and found: "map_of (tool_map m) n = Some e"
    and wrapped: "properties (inputSchema (entry_tool e)) = Some props"
      "''input'' \<in> set (keys props)"
    and first_def: "defs (inputSchema (entry_tool e)) = Some ((inner_key, inner_def) # more_defs)"
      "def_properties inner_def = Some inner_props"
    and dict: "distinct (keys inner_props)"
    and count: "length args = length inner_props"
  shows "build_input_payload n (inputSchema (entry_tool e)) args =
           Inr (PDict [(''input'', PDict (zip (keys inner_props) args))])
    \<and> snd (function_wrapper w m tool_name args0) =
           [(entry_config e, n, PDict [(''input'', PDict (zip (keys inner_props) args))])]
    \<and> fst (function_wrapper w m tool_name args0) =
           (case session_call_tool w (entry_config e) n
                   (PDict [(''input'', PDict (zip (keys inner_props) args))]) of
              Inl x \<Rightarrow> Inl (ProviderError x)
            | Inr result \<Rightarrow> Inr (normalize_output w result))"
proof -
  have len: "length (keys inner_props) = length args"
    using count by (simp add: keys_def)
  have payload: "build_input_payload n (inputSchema (entry_tool e)) args =
      Inr (PDict [(''input'', PDict (zip (keys inner_props) args))])"
    using build_wrapped [OF wrapped first_def, of n args] count dict_of_zip [OF dict len] by simp
  show ?thesis
    using payload invoke_dispatch [OF found payload] invoke_result [OF found payload]
    by (simp add: function_wrapper_resolved [OF resolved])
qed

text \<open>
  The instances that refute claim C3 as first stated. \<open>data_schema\<close> has exactly one
  top-level property, which references the definition \<^verbatim>\<open>D\<close> with the property \<^verbatim>\<open>a\<close>;
  the property is not named \<^verbatim>\<open>input\<close>, so the code treats the schema as Flat and the
  payload is \<^verbatim>\<open>{"data": 2}\<close>, not \<^verbatim>\<open>{"input": {"a": 2}}\<close>. In \<open>nested_schema\<close> the
  property \<^verbatim>\<open>input\<close> references the second definition, with two properties; the code
  reads the first definition, with one, and refuses two arguments.
\<close>

theorem wrapped_detection_by_name:
  "spec_wrapped_inner_properties data_schema = Some [(''a'', PDict [(''type'', PStr ''integer'')])]
   \<and> build_input_payload ''t'' data_schema [PInt 2] = Inr (PDict [(''data'', PInt 2)])
   \<and> build_input_payload ''t'' data_schema [PInt 2] \<noteq>
       Inr (PDict [(''input'', PDict [(''a'', PInt 2)])])
   \<and> spec_wrapped_inner_properties nested_schema =
       Some [(''item'', PDict [(''$ref'', PStr ''#/$defs/Item'')]),
             (''count'', PDict [(''type'', PStr ''integer'')])]
   \<and> build_input_payload ''t'' nested_schema [PInt 2, PInt 3] =
       Inl (ArgumentCountError ''t'' 1 2)"
  by (simp add: spec_wrapped_inner_properties_def ref_of_def data_schema_def nested_schema_def
      build_input_payload_def keys_def dict_of_def Let_def)

text \<open>
  The amended claim C3 at the function string \<^verbatim>\<open>add(45, 55)\<close>: the payload is
  \<^verbatim>\<open>{"input": {"a": 45, "b": 55}}\<close>, sent to server 4, which registered \<^verbatim>\<open>add\<close> last.
\<close>

theorem wrapped_schema_payload_witness:
  "snd (function_wrapper example_world example_catalog '' add(45, 55) '' []) =
     [(server_4, ''add'', PDict [(''input'', PDict [(''a'', PInt 45), (''b'', PInt 55)])])]
   \<and> fst (function_wrapper example_world example_catalog '' add(45, 55) '' []) =
       Inr (Parsed (PInt 5))"
proof -
  let ?props = "[(''input'', PDict [(''$ref'', PStr ''#/$defs/AddInput'')])]"
  let ?inner = "[(''a'', PDict [(''type'', PStr ''integer'')]),
                 (''b'', PDict [(''type'', PStr ''integer'')])]"
  let ?e = "\<lparr>entry_config = server_4, entry_tool = add_4\<rparr>"
  have h3: "properties (inputSchema (entry_tool ?e)) = Some ?props"
    by (simp add: add_4_def add_schema_def)
  have h4: "''input'' \<in> set (keys ?props)" by (simp add: keys_def)
  have h5: "defs (inputSchema (entry_tool ?e)) =
      Some ((''AddInput'', \<lparr>def_properties = Some ?inner\<rparr>) # [])"
    by (simp add: add_4_def add_schema_def)
  have h6: "def_properties \<lparr>def_properties = Some ?inner\<rparr> = Some ?inner" by simp
  have h7: "distinct (keys ?inner)" by (simp add: keys_def)
  have h8: "length [PInt 45, PInt 55] = length ?inner" by simp
  from wrapped_schema_payload [OF example_function_string example_add h3 h4 h5 h6 h7 h8]
  show ?thesis
    by (simp add: keys_def example_reply example_normalized)
qed

text \<open>
  Claim C6, as amended. For every tool in the catalog whose schema has \<^verbatim>\<open>"properties"\<close>:
  when none of them is named \<^verbatim>\<open>input\<close>, a call with a number of arguments different
  from the number of properties fails with \<open>ArgumentCountError\<close>; when one of them is
  named \<^verbatim>\<open>input\<close> and the first definition listed under \<^verbatim>\<open>"$defs"\<close> has properties, a
  call with a number of arguments different from the number of that definition's
  properties fails with \<open>ArgumentCountError\<close>. The error carries the expected and the
  actual count, and no session to a provider is opened. The claim as first stated, for
  the declared (inner) properties of every Flat or Wrapped schema, fails at the
  instances that follow the theorem.
\<close>

theorem argument_count_mismatch:
  assumes resolved: "handle_function_string w tool_name args0 = Inr (n, args)"
    and found: "map_of (tool_map m) n = Some e"
    and props: "properties (inputSchema (entry_tool e)) = Some props"
  shows "(''input'' \<notin> set (keys props) \<and> length props \<noteq> length args \<longrightarrow>
            function_wrapper w m tool_name args0 =
              (Inl (ArgumentCountError n (length props) (length args)), []))
    \<and> (''input'' \<in> set (keys props)
          \<and> defs (inputSchema (entry_tool e)) = Some ((inner_key, inner_def) # more_defs)
          \<and> def_properties inner_def = Some inner_props
          \<and> length inner_props \<noteq> length args \<longrightarrow>
            function_wrapper w m tool_name args0 =
              (Inl (ArgumentCountError n (length inner_props) (length args)), []))"
proof (intro conjI impI)
  assume "''input'' \<notin> set (keys props) \<and> length props \<noteq> length args"
  then have "build_input_payload n (inputSchema (entry_tool e)) args =
      Inl (ArgumentCountError n (length props) (length args))"
    using build_flat [OF props, of n args] by simp
  then show "function_wrapper w m tool_name args0 =
      (Inl (ArgumentCountError n (length props) (length args)), [])"
    by (simp add: function_wrapper_resolved [OF resolved] invoke_payload_error [OF found])
next
  assume a: "''input'' \<in> set (keys props)
          \<and> defs (inputSchema (entry_tool e)) = Some ((inner_key, inner_def) # more_defs)
          \<and> def_properties inner_def = Some inner_props
          \<and> length inner_props \<noteq> length args"
  then have "build_input_payload n (inputSchema (entry_tool e)) args =
      Inl (ArgumentCountError n (length inner_props) (length args))"
    using build_wrapped [OF props, of inner_key inner_def more_defs inner_props n args] by simp
  then show "function_wrapper w m tool_name args0 =
      (Inl (ArgumentCountError n (length inner_props) (length args)), [])"
    by (simp add: function_wrapper_resolved [OF resolved] invoke_payload_error [OF found])
qed

text \<open>
  The instances that refute claim C6 as first stated. In \<open>nested_schema\<close> the property
  \<^verbatim>\<open>input\<close> references the definition \<^verbatim>\<open>Order\<close>, with two properties; the code counts
  the properties of the first definition, \<^verbatim>\<open>Item\<close>, which has one, so a call with one
  argument passes the check and is sent to the provider. \<open>echo_schema\<close> is Flat with one
  declared property, named \<^verbatim>\<open>input\<close>; a call with two arguments fails with
  \<^verbatim>\<open>KeyError\<close>, not with \<open>ArgumentCountError\<close>.
\<close>

theorem argument_count_not_checked_against_declared:
  "spec_wrapped_inner_properties nested_schema =
     Some [(''item'', PDict [(''$ref'', PStr ''#/$defs/Item'')]),
           (''count'', PDict [(''type'', PStr ''integer'')])]
   \<and> function_wrapper second_world second_catalog ''order'' [PInt 2] =
       (Inr (Parsed (PInt 5)),
        [(server_4, ''order'', PDict [(''input'', PDict [(''sku'', PInt 2)])])])
   \<and> properties echo_schema = Some [(''input'', PDict [(''type'', PStr ''string'')])]
   \<and> spec_wrapped_inner_properties echo_schema = None
   \<and> function_wrapper second_world second_catalog ''echo'' [PStr ''a'', PStr ''b''] =
       (Inl (KeyError (Some ''$defs'')), [])"
proof -
  have nested: "spec_wrapped_inner_properties nested_schema =
     Some [(''item'', PDict [(''$ref'', PStr ''#/$defs/Item'')]),
           (''count'', PDict [(''type'', PStr ''integer'')])]"
    by (simp add: spec_wrapped_inner_properties_def ref_of_def nested_schema_def)
  have payload: "build_input_payload ''order'' nested_schema [PInt 2] =
      Inr (PDict [(''input'', PDict [(''sku'', PInt 2)])])"
    by (simp add: build_input_payload_def nested_schema_def keys_def dict_of_def Let_def)
  have order: "function_wrapper second_world second_catalog ''order'' [PInt 2] =
       (Inr (Parsed (PInt 5)),
        [(server_4, ''order'', PDict [(''input'', PDict [(''sku'', PInt 2)])])])"
    by (simp add: function_wrapper_def handle_function_string_def invoke_def second_catalog_eq
        order_tool_def payload call_tool_def second_reply second_normalized)
  have echo: "function_wrapper second_world second_catalog ''echo'' [PStr ''a'', PStr ''b''] =
       (Inl (KeyError (Some ''$defs'')), [])"
    by (simp add: function_wrapper_def handle_function_string_def invoke_def second_catalog_eq
        echo_tool_def echo_schema_def build_input_payload_def keys_def)
  have "properties echo_schema = Some [(''input'', PDict [(''type'', PStr ''string'')])]
      \<and> spec_wrapped_inner_properties echo_schema = None"
    by (simp add: echo_schema_def spec_wrapped_inner_properties_def ref_of_def)
  with nested order echo show ?thesis by simp
qed

text \<open>
  The amended claim C6 at one argument against the two parameters of \<^verbatim>\<open>multiply\<close> (Flat) and of
  \<^verbatim>\<open>add\<close> (Wrapped): expected 2, actual 1.
\<close>

theorem argument_count_mismatch_witness:
  "function_wrapper example_world example_catalog ''multiply'' [PInt 2] =
     (Inl (ArgumentCountError ''multiply'' 2 1), [])
   \<and> function_wrapper example_world example_catalog ''add'' [PInt 2] =
     (Inl (ArgumentCountError ''add'' 2 1), [])"
proof -
  let ?props = "[(''a'', PDict [(''title'', PStr ''A'')]), (''b'', PDict [(''title'', PStr ''B'')])]"
  let ?wprops = "[(''input'', PDict [(''$ref'', PStr ''#/$defs/AddInput'')])]"
  let ?inner = "[(''a'', PDict [(''type'', PStr ''integer'')]),
                 (''b'', PDict [(''type'', PStr ''integer'')])]"
  have m1: "handle_function_string example_world ''multiply'' [PInt 2] = Inr (''multiply'', [PInt 2])"
    by (simp add: handle_structured)
  have m3: "properties (inputSchema (entry_tool \<lparr>entry_config = server_4, entry_tool = multiply_4\<rparr>)) =
      Some ?props"
    by (simp add: multiply_4_def multiply_schema_def)
  have a1: "handle_function_string example_world ''add'' [PInt 2] = Inr (''add'', [PInt 2])"
    by (simp add: handle_structured)
  have a3: "properties (inputSchema (entry_tool \<lparr>entry_config = server_4, entry_tool = add_4\<rparr>)) =
      Some ?wprops"
    by (simp add: add_4_def add_schema_def)
  have a5: "defs (inputSchema (entry_tool \<lparr>entry_config = server_4, entry_tool = add_4\<rparr>)) =
      Some ((''AddInput'', \<lparr>def_properties = Some ?inner\<rparr>) # [])"
    by (simp add: add_4_def add_schema_def)
  have "function_wrapper example_world example_catalog ''multiply'' [PInt 2] =
     (Inl (ArgumentCountError ''multiply'' 2 1), [])"
    using argument_count_mismatch [OF m1 example_multiply m3] by (simp add: keys_def)
  moreover have "function_wrapper example_world example_catalog ''add'' [PInt 2] =
     (Inl (ArgumentCountError ''add'' 2 1), [])"
    using argument_count_mismatch [OF a1 example_add a3, of "''AddInput''"
        "\<lparr>def_properties = Some ?inner\<rparr>" "[]" ?inner] a5
    by (simp add: keys_def)
  ultimately show ?thesis by simp
qed

text \<open>
  Claim C7. For every tool name absent from the catalog, with any arguments, the lookup
  of lines 188 to 191 fails with \<open>ToolNotFound\<close> before a payload is built or a session
  opened, and so does the lookup of \<^verbatim>\<open>call_tool\<close> (lines 140 to 142), with its own
  message. \<^verbatim>\<open>function_wrapper\<close> therefore fails with \<open>ToolNotFound\<close> whenever the name
  it resolved is absent, in particular for an absent name passed with arguments or not
  shaped like a call.
\<close>

theorem absent_tool_not_found:
  assumes absent: "map_of (tool_map m) n = None"
  shows "invoke w m n args = (Inl (ToolNotFound n), [])
    \<and> call_tool w m n payload = (Inl (ToolNotFoundOnAnyServer n), [])
    \<and> (handle_function_string w tool_name args0 = Inr (n, args) \<longrightarrow>
          function_wrapper w m tool_name args0 = (Inl (ToolNotFound n), []))
    \<and> (args \<noteq> [] \<or> \<not> (endswith (strip n) CHR '')'' \<and> CHR ''('' \<in> set (strip n)) \<longrightarrow>
          function_wrapper w m n args = (Inl (ToolNotFound n), []))"
proof -
  have inv: "invoke w m n args' = (Inl (ToolNotFound n), [])" for args'
    using absent by (simp add: invoke_def)
  have direct: "handle_function_string w n args = Inr (n, args)"
    if "args \<noteq> [] \<or> \<not> (endswith (strip n) CHR '')'' \<and> CHR ''('' \<in> set (strip n))"
    using that by (auto simp: handle_function_string_def Let_def)
  show ?thesis
    using inv absent direct
    by (auto simp: call_tool_def function_wrapper_def)
qed

text \<open>Claim C7 at the name \<^verbatim>\<open>missingTool\<close>, absent from the worked catalog.\<close>

theorem absent_tool_not_found_witness:
  "map_of (tool_map example_catalog) ''missingTool'' = None
   \<and> function_wrapper example_world example_catalog ''missingTool'' [] =
       (Inl (ToolNotFound ''missingTool''), [])
   \<and> invoke example_world example_catalog ''missingTool'' [PInt 1] =
       (Inl (ToolNotFound ''missingTool''), [])
   \<and> call_tool example_world example_catalog ''missingTool'' (PDict []) =
       (Inl (ToolNotFoundOnAnyServer ''missingTool''), [])"
proof -
  have absent: "map_of (tool_map example_catalog) ''missingTool'' = None"
    by (simp add: example_catalog_eq)
  have shape: "\<not> (endswith (strip ''missingTool'') CHR '')'' \<and> CHR ''('' \<in> set (strip ''missingTool''))"
    by (simp add: strip_def py_isspace_def endswith_def)
  from absent_tool_not_found [OF absent, of example_world "[]" "PDict []"] shape
  have "function_wrapper example_world example_catalog ''missingTool'' [] =
       (Inl (ToolNotFound ''missingTool''), [])"
    and "call_tool example_world example_catalog ''missingTool'' (PDict []) =
       (Inl (ToolNotFoundOnAnyServer ''missingTool''), [])"
    by blast+
  moreover from absent_tool_not_found [OF absent, of example_world "[PInt 1]"]
  have "invoke example_world example_catalog ''missingTool'' [PInt 1] =
       (Inl (ToolNotFound ''missingTool''), [])"
    by blast
  ultimately show ?thesis using absent by blast
qed

text \<open>
  Claim C10. \<^verbatim>\<open>function_wrapper\<close> treats its first argument as a function string only
  when no positional argument is given and the stripped string ends with \<^verbatim>\<open>)\<close> and
  contains \<^verbatim>\<open>(\<close>: then it is parsed. In every other case the string is used as it
  is, unstripped, as the tool name, and the call fails with \<open>ToolNotFound\<close> when no tool
  has that name.
\<close>

theorem function_string_condition:
  "(\<not> (args = [] \<and> endswith (strip tool_name) CHR '')'' \<and> CHR ''('' \<in> set (strip tool_name)) \<longrightarrow>
      handle_function_string w tool_name args = Inr (tool_name, args)
      \<and> function_wrapper w m tool_name args = invoke w m tool_name args
      \<and> (map_of (tool_map m) tool_name = None \<longrightarrow>
            function_wrapper w m tool_name args = (Inl (ToolNotFound tool_name), [])))
   \<and> (args = [] \<and> endswith (strip tool_name) CHR '')'' \<and> CHR ''('' \<in> set (strip tool_name) \<longrightarrow>
      handle_function_string w tool_name args = parse_call w tool_name (strip tool_name)
      \<and> function_wrapper w m tool_name args =
          (case parse_call w tool_name (strip tool_name) of
             Inl e \<Rightarrow> (Inl e, [])
           | Inr (n, parsed_args) \<Rightarrow> invoke w m n parsed_args))"
proof (intro conjI impI)
  assume cond: "\<not> (args = [] \<and> endswith (strip tool_name) CHR '')'' \<and> CHR ''('' \<in> set (strip tool_name))"
  then show verbatim: "handle_function_string w tool_name args = Inr (tool_name, args)"
    by (auto simp: handle_function_string_def Let_def)
  then show same: "function_wrapper w m tool_name args = invoke w m tool_name args"
    by (simp add: function_wrapper_def)
  show "function_wrapper w m tool_name args = (Inl (ToolNotFound tool_name), [])"
    if "map_of (tool_map m) tool_name = None"
    using that same by (simp add: invoke_def)
next
  assume cond: "args = [] \<and> endswith (strip tool_name) CHR '')'' \<and> CHR ''('' \<in> set (strip tool_name)"
  then show parsed: "handle_function_string w tool_name args = parse_call w tool_name (strip tool_name)"
    by (simp add: handle_function_string_def Let_def)
  show "function_wrapper w m tool_name args =
          (case parse_call w tool_name (strip tool_name) of
             Inl e \<Rightarrow> (Inl e, [])
           | Inr (n, parsed_args) \<Rightarrow> invoke w m n parsed_args)"
    by (simp add: function_wrapper_def parsed)
qed

text \<open>
  Claim C10 at a call-shaped string passed with a positional argument and at \<^verbatim>\<open>add(\<close>
  with none, both looked up as they are; at a function string between spaces, which is
  parsed; and at a function string followed by a no-break space U+00A0, which
  \<^verbatim>\<open>strip\<close> removes, so that the string is parsed and \<^verbatim>\<open>add\<close> is called.
\<close>

theorem function_string_condition_witness:
  "function_wrapper example_world example_catalog ''add(45, 55)'' [PInt 1] =
     (Inl (ToolNotFound ''add(45, 55)''), [])
   \<and> function_wrapper example_world example_catalog ''add('' [] = (Inl (ToolNotFound ''add(''), [])
   \<and> handle_function_string example_world '' add(45, 55) '' [] =
       parse_call example_world '' add(45, 55) '' ''add(45, 55)''
   \<and> function_wrapper example_world example_catalog (''add(45, 55)'' @ [CHR 0xA0]) [] =
       (Inr (Parsed (PInt 5)),
        [(server_4, ''add'', PDict [(''input'', PDict [(''a'', PInt 45), (''b'', PInt 55)])])])"
proof -
  have g1: "\<not> ([PInt 1] = [] \<and> endswith (strip ''add(45, 55)'') CHR '')''
              \<and> CHR ''('' \<in> set (strip ''add(45, 55)''))"
    by simp
  have n1: "map_of (tool_map example_catalog) ''add(45, 55)'' = None"
    by (simp add: example_catalog_eq)
  have g2: "\<not> ([] = ([] :: pyval list) \<and> endswith (strip ''add('') CHR '')''
              \<and> CHR ''('' \<in> set (strip ''add(''))"
    by (simp add: strip_def py_isspace_def endswith_def)
  have n2: "map_of (tool_map example_catalog) ''add('' = None"
    by (simp add: example_catalog_eq)
  have g3: "[] = ([] :: pyval list) \<and> endswith (strip '' add(45, 55) '') CHR '')''
              \<and> CHR ''('' \<in> set (strip '' add(45, 55) '')"
    by (simp add: strip_def py_isspace_def endswith_def)
  have s3: "strip '' add(45, 55) '' = ''add(45, 55)''"
    by (simp add: strip_def py_isspace_def)
  have s4: "strip (''add(45, 55)'' @ [CHR 0xA0]) = ''add(45, 55)''"
    by (simp add: strip_def py_isspace_def)
  have g4: "[] = ([] :: pyval list) \<and> endswith (strip (''add(45, 55)'' @ [CHR 0xA0])) CHR '')''
              \<and> CHR ''('' \<in> set (strip (''add(45, 55)'' @ [CHR 0xA0]))"
    unfolding s4 by (simp add: endswith_def)
  have p4: "parse_call example_world (''add(45, 55)'' @ [CHR 0xA0]) ''add(45, 55)'' =
      Inr (''add'', [PInt 45, PInt 55])"
    by (simp add: parse_call_def example_world_def)
  from function_string_condition [of "[PInt 1]" "''add(45, 55)''" example_world example_catalog] g1 n1
  have "function_wrapper example_world example_catalog ''add(45, 55)'' [PInt 1] =
     (Inl (ToolNotFound ''add(45, 55)''), [])"
    by blast
  moreover from function_string_condition [of "[]" "''add(''" example_world example_catalog] g2 n2
  have "function_wrapper example_world example_catalog ''add('' [] = (Inl (ToolNotFound ''add(''), [])"
    by blast
  moreover from function_string_condition [of "[]" "'' add(45, 55) ''" example_world example_catalog] g3
  have "handle_function_string example_world '' add(45, 55) '' [] =
       parse_call example_world '' add(45, 55) '' (strip '' add(45, 55) '')"
    by blast
  moreover from function_string_condition
      [of "[]" "''add(45, 55)'' @ [CHR 0xA0]" example_world example_catalog] g4
  have "function_wrapper example_world example_catalog (''add(45, 55)'' @ [CHR 0xA0]) [] =
       (case parse_call example_world (''add(45, 55)'' @ [CHR 0xA0])
               (strip (''add(45, 55)'' @ [CHR 0xA0])) of
          Inl e \<Rightarrow> (Inl e, [])
        | Inr (n, parsed_args) \<Rightarrow> invoke example_world example_catalog n parsed_args)"
    by blast
  then have "function_wrapper example_world example_catalog (''add(45, 55)'' @ [CHR 0xA0]) [] =
       (Inr (Parsed (PInt 5)),
        [(server_4, ''add'', PDict [(''input'', PDict [(''a'', PInt 45), (''b'', PInt 55)])])])"
    unfolding s4 p4 by (simp add: example_invoke_add)
  ultimately show ?thesis by (simp add: s3)
qed

text \<open>
  Claim C4 fails on the code. The function string \<^verbatim>\<open>add(1, b=x)\<close> is a call of a bare
  name with a non-literal argument, the identifier \<^verbatim>\<open>x\<close>, passed by keyword. The code
  never reads \<^verbatim>\<open>expr.keywords\<close>: the string parses to the name \<^verbatim>\<open>add\<close> with the single
  argument 1, the keyword argument is dropped without being evaluated or refused, and
  no \<open>ParseError\<close> is raised; the call goes on to the arity check of \<^verbatim>\<open>add\<close>.
\<close>

theorem keyword_argument_dropped:
  "ast_parse example_world ''add(1, b=x)'' =
     Some (Call (Name ''add'') [Constant (PInt 1)] [(Some ''b'', Name ''x'')])
   \<and> literal_eval example_world (Name ''x'') = None
   \<and> handle_function_string example_world ''add(1, b=x)'' [] = Inr (''add'', [PInt 1])
   \<and> function_wrapper example_world example_catalog ''add(1, b=x)'' [] =
       (Inl (ArgumentCountError ''add'' 2 1), [])"
  by (simp add: handle_function_string_def Let_def strip_def py_isspace_def endswith_def
      parse_call_def example_world_def function_wrapper_def invoke_def example_catalog_eq
      build_input_payload_def add_4_def add_schema_def keys_def)

subsection \<open>Further properties of function_wrapper\<close>

lemma those_map_None:
  "those (map f xs) = None \<longleftrightarrow> (\<exists>x \<in> set xs. f x = None)"
  by (induction xs) (auto split: option.splits)

text \<open>
  The function-string block on the shapes it does tell apart. A string that does not
  parse, and one that parses to anything but a call of a bare name, fail with
  \<open>ParseError\<close>; so does a call with a positional argument that \<^verbatim>\<open>ast.literal_eval\<close>
  refuses; a call whose positional arguments are all literals yields the name and the
  evaluated arguments in order.
\<close>

theorem parse_call_shapes:
  "(ast_parse w s = None \<longrightarrow> parse_call w tool_name s = Inl (ParseError tool_name SyntaxErrorRaised))
   \<and> (ast_parse w s = Some e \<and> (\<forall>f positional keywords. e \<noteq> Call (Name f) positional keywords) \<longrightarrow>
         parse_call w tool_name s = Inl (ParseError tool_name InvalidFunctionCallFormat))
   \<and> (ast_parse w s = Some (Call (Name f) positional keywords)
         \<and> those (map (literal_eval w) positional) = Some vs \<longrightarrow>
         parse_call w tool_name s = Inr (f, vs))
   \<and> (ast_parse w s = Some (Call (Name f) positional keywords)
         \<and> a \<in> set positional \<and> literal_eval w a = None \<longrightarrow>
         parse_call w tool_name s = Inl (ParseError f LiteralEvalRaised))"
proof (intro conjI impI)
  show "parse_call w tool_name s = Inl (ParseError tool_name SyntaxErrorRaised)"
    if "ast_parse w s = None"
    using that by (simp add: parse_call_def)
  show "parse_call w tool_name s = Inl (ParseError tool_name InvalidFunctionCallFormat)"
    if "ast_parse w s = Some e \<and> (\<forall>f positional keywords. e \<noteq> Call (Name f) positional keywords)"
    using that by (auto simp: parse_call_def split: expr.splits)
  show "parse_call w tool_name s = Inr (f, vs)"
    if "ast_parse w s = Some (Call (Name f) positional keywords)
         \<and> those (map (literal_eval w) positional) = Some vs"
    using that by (simp add: parse_call_ignores_keywords)
  show "parse_call w tool_name s = Inl (ParseError f LiteralEvalRaised)"
    if h: "ast_parse w s = Some (Call (Name f) positional keywords)
         \<and> a \<in> set positional \<and> literal_eval w a = None"
  proof -
    from h have "those (map (literal_eval w) positional) = None"
      using those_map_None [of "literal_eval w" positional] by blast
    with h show ?thesis by (simp add: parse_call_ignores_keywords)
  qed
qed

text \<open>
  At \<^verbatim>\<open>add(45, 55)\<close>, at \<^verbatim>\<open>add(x, 1)\<close> with the identifier \<^verbatim>\<open>x\<close>, at a callee that is
  an attribute, at a string that is not a call and at one that is not an expression.
\<close>

theorem parse_call_shapes_witness:
  "handle_function_string example_world ''add(45, 55)'' [] = Inr (''add'', [PInt 45, PInt 55])
   \<and> handle_function_string example_world ''add(x, 1)'' [] = Inl (ParseError ''add'' LiteralEvalRaised)
   \<and> handle_function_string example_world ''math.add(1, 2)'' [] =
       Inl (ParseError ''math.add(1, 2)'' InvalidFunctionCallFormat)
   \<and> handle_function_string example_world ''(1)'' [] =
       Inl (ParseError ''(1)'' InvalidFunctionCallFormat)
   \<and> handle_function_string example_world ''add(45,)))'' [] =
       Inl (ParseError ''add(45,)))'' SyntaxErrorRaised)"
proof -
  have cond: "handle_function_string example_world s [] = parse_call example_world s s"
    if "strip s = s" "endswith s CHR '')''" "CHR ''('' \<in> set s" for s
    using that by (simp add: handle_function_string_def Let_def)
  have p1: "ast_parse example_world ''add(45, 55)'' =
      Some (Call (Name ''add'') [Constant (PInt 45), Constant (PInt 55)] [])
      \<and> those (map (literal_eval example_world) [Constant (PInt 45), Constant (PInt 55)]) =
         Some [PInt 45, PInt 55]"
    by (simp add: example_world_def)
  have p2: "ast_parse example_world ''add(x, 1)'' =
      Some (Call (Name ''add'') [Name ''x'', Constant (PInt 1)] [])
      \<and> Name ''x'' \<in> set [Name ''x'', Constant (PInt 1)]
      \<and> literal_eval example_world (Name ''x'') = None"
    by (simp add: example_world_def)
  have p3: "ast_parse example_world ''math.add(1, 2)'' =
      Some (Call (Attribute (Name ''math'') ''add'') [Constant (PInt 1), Constant (PInt 2)] [])
      \<and> (\<forall>f positional keywords.
            Call (Attribute (Name ''math'') ''add'') [Constant (PInt 1), Constant (PInt 2)] [] \<noteq>
            Call (Name f) positional keywords)"
    by (simp add: example_world_def)
  have p4: "ast_parse example_world ''(1)'' = Some (Constant (PInt 1))
      \<and> (\<forall>f positional keywords. Constant (PInt 1) \<noteq> Call (Name f) positional keywords)"
    by (simp add: example_world_def)
  have p5: "ast_parse example_world ''add(45,)))'' = None"
    by (simp add: example_world_def)
  have "parse_call example_world ''add(45, 55)'' ''add(45, 55)'' = Inr (''add'', [PInt 45, PInt 55])"
    using parse_call_shapes [of example_world "''add(45, 55)''" "''add(45, 55)''" _ "''add''"
        "[Constant (PInt 45), Constant (PInt 55)]" "[]" "[PInt 45, PInt 55]"] p1 by blast
  moreover have "parse_call example_world ''add(x, 1)'' ''add(x, 1)'' =
      Inl (ParseError ''add'' LiteralEvalRaised)"
    using parse_call_shapes [of example_world "''add(x, 1)''" "''add(x, 1)''" _ "''add''"
        "[Name ''x'', Constant (PInt 1)]" "[]" _ "Name ''x''"] p2 by blast
  moreover have "parse_call example_world ''math.add(1, 2)'' ''math.add(1, 2)'' =
      Inl (ParseError ''math.add(1, 2)'' InvalidFunctionCallFormat)"
    using parse_call_shapes [of example_world "''math.add(1, 2)''" "''math.add(1, 2)''"
        "Call (Attribute (Name ''math'') ''add'') [Constant (PInt 1), Constant (PInt 2)] []"] p3
    by blast
  moreover have "parse_call example_world ''(1)'' ''(1)'' =
      Inl (ParseError ''(1)'' InvalidFunctionCallFormat)"
    using parse_call_shapes [of example_world "''(1)''" "''(1)''" "Constant (PInt 1)"] p4 by blast
  moreover have "parse_call example_world ''add(45,)))'' ''add(45,)))'' =
      Inl (ParseError ''add(45,)))'' SyntaxErrorRaised)"
    using parse_call_shapes [of example_world "''add(45,)))''" "''add(45,)))''"] p5 by blast
  ultimately show ?thesis
    by (simp add: cond strip_def py_isspace_def endswith_def)
qed

text \<open>
  A schema with a property named \<^verbatim>\<open>input\<close> and no usable first definition makes the
  payload block raise \<^verbatim>\<open>KeyError\<close>, whatever the number of arguments.
\<close>

theorem input_property_without_definition:
  "properties sch = Some props \<and> ''input'' \<in> set (keys props) \<longrightarrow>
     (defs sch = None \<longrightarrow> build_input_payload n sch args = Inl (KeyError (Some ''$defs'')))
     \<and> (defs sch = Some [] \<longrightarrow> build_input_payload n sch args = Inl (KeyError None))
     \<and> (defs sch = Some ((inner_key, inner_def) # more_defs) \<and> def_properties inner_def = None \<longrightarrow>
          build_input_payload n sch args = Inl (KeyError (Some ''properties'')))"
  by (simp add: build_input_payload_def keys_def)

text \<open>At a tool with the single plain parameter \<^verbatim>\<open>input\<close> of type string.\<close>

theorem input_property_without_definition_witness:
  "build_input_payload ''echo''
     \<lparr>properties = Some [(''input'', PDict [(''type'', PStr ''string'')])], defs = None\<rparr>
     [PStr ''hello''] = Inl (KeyError (Some ''$defs''))"
  using input_property_without_definition
    [of "\<lparr>properties = Some [(''input'', PDict [(''type'', PStr ''string'')])], defs = None\<rparr>"
        "[(''input'', PDict [(''type'', PStr ''string'')])]" "''echo''" "[PStr ''hello'']"]
  by (simp add: keys_def)

end
